theory Spec2Isabelle
  imports Complex_Main
begin

section \<open>The Cessna 172 force and moment model of PyFME\<close>

text \<open>
  This theory embeds \<^verbatim>\<open>src/pyfme/aircrafts/cessna_172.py\<close>: the class
  \<^verbatim>\<open>Cessna172\<close>, its coefficient tables and its five methods.

  Numbers: the source computes with IEEE double precision floats. Here every number is a
  \<^typ>\<open>real\<close>, so the theorems below are statements about the arithmetic the code
  writes down, without rounding.

  Library calls: \<^verbatim>\<open>numpy.interp\<close> is modelled by \<open>np_interp\<close> below, following
  its documented behaviour. \<^verbatim>\<open>scipy.interpolate.RectBivariateSpline\<close> (fitting a
  bicubic spline to a rectangular table and evaluating it at a point) is not part of the
  repository; the methods take it as a parameter of type \<open>spline2d\<close>, and a theorem that
  needs a property of it states that property as a hypothesis. How SciPy evaluates a
  fitted spline at a point outside the grid is modelled by \<open>fitpack_bispev\<close> below.
\<close>

subsection \<open>Angles\<close>

definition rad2deg :: "real \<Rightarrow> real" where
  "rad2deg x = x * 180 / pi"

definition deg2rad :: "real \<Rightarrow> real" where
  "deg2rad x = x * pi / 180"

subsection \<open>One-dimensional interpolation: \<^verbatim>\<open>np.interp(x, xp, fp)\<close>\<close>

text \<open>
  \<open>search x xp\<close> is the index \<open>j\<close> of the grid interval that holds \<open>x\<close>:
  \<open>xp ! j \<le> x < xp ! (j + 1)\<close>, and the last index when \<open>x\<close> is the last grid point
  (numpy finds it by bisection; the grid is increasing). It is only used for
  \<open>hd xp \<le> x \<le> last xp\<close>.
\<close>

fun search :: "real \<Rightarrow> real list \<Rightarrow> nat" where
  "search x (a # b # xs) = (if x < b then 0 else Suc (search x (b # xs)))"
| "search x xs = 0"

text \<open>
  Below the grid the result is \<open>fp[0]\<close>, above it \<open>fp[-1]\<close> (the defaults of
  \<^verbatim>\<open>left\<close> and \<^verbatim>\<open>right\<close>); at a grid point it is the tabulated value; between two
  grid points it is \<open>slope * (x - xp[j]) + fp[j]\<close>. numpy raises \<^verbatim>\<open>ValueError\<close> for an
  empty grid and for \<open>fp\<close> and \<open>xp\<close> of different lengths; every call of the class passes
  one of its fixed tables, which are neither (lemma \<open>table_lengths\<close>).
\<close>

definition np_interp :: "real \<Rightarrow> real list \<Rightarrow> real list \<Rightarrow> real" where
  "np_interp x xp fp =
     (if x < hd xp then hd fp
      else if last xp < x then last fp
      else
        let j = search x xp in
        if j = length xp - 1 \<or> xp ! j = x then fp ! j
        else (fp ! Suc j - fp ! j) / (xp ! Suc j - xp ! j) * (x - xp ! j) + fp ! j)"

subsection \<open>Two-dimensional interpolation\<close>

text \<open>
  \<open>RectBivariateSpline x y z\<close> fits the surface and the result is called at one point
  \<open>(u, v)\<close>, of which the source reads entry \<open>[0,0]\<close>: a \<open>spline2d\<close> maps the two grids,
  the table and the query point to that number.
\<close>

type_synonym spline2d = "real list \<Rightarrow> real list \<Rightarrow> real list list \<Rightarrow> real \<Rightarrow> real \<Rightarrow> real"

text \<open>An evaluator interpolates a table when it returns the tabulated value at every node.\<close>

definition interpolates :: "spline2d \<Rightarrow> real list \<Rightarrow> real list \<Rightarrow> real list list \<Rightarrow> bool" where
  "interpolates S xs ys zs =
     (\<forall>i < length xs. \<forall>j < length ys. S xs ys zs (xs ! i) (ys ! j) = zs ! i ! j)"

text \<open>Holding a coordinate at the bounds of its grid.\<close>

definition clamp :: "real list \<Rightarrow> real \<Rightarrow> real" where
  "clamp xs u = max (hd xs) (min (last xs) u)"

text \<open>
  SciPy evaluates a \<^verbatim>\<open>RectBivariateSpline\<close> through FITPACK (\<^verbatim>\<open>bispev\<close>), which
  first holds each argument within the knot range of its axis and then evaluates the
  fitted piecewise polynomial. With the default bounding box, which the source uses, the
  knot range of an axis runs from its first to its last grid point. The fitted
  polynomial \<open>surface\<close> is a parameter.
\<close>

definition fitpack_bispev :: "spline2d \<Rightarrow> spline2d" where
  "fitpack_bispev surface xs ys zs u v = surface xs ys zs (clamp xs u) (clamp ys v)"

text \<open>
  A sample evaluator, used to show that hypotheses on the evaluator can be met:
  \<open>bilinear\<close> interpolates linearly along both axes.
\<close>

definition bilinear :: spline2d where
  "bilinear xs ys zs u v = np_interp u xs (map (np_interp v ys) zs)"

subsection \<open>Aerodynamic data\<close>

definition alpha_data :: "real list" where
  "alpha_data = [-7.5, -5, -2.5, 0, 2.5, 5, 7.5, 10, 15, 17, 18, 19.5]"

definition delta_elev_data :: "real list" where
  "delta_elev_data = [-26, -20, -10, -5, 0, 7.5, 15, 22.5, 28]"

definition delta_aile_data :: "real list" where
  "delta_aile_data = [-15, -10, -5, -2.5, 0, 5, 10, 15, 20]"

definition CD_data :: "real list" where
  "CD_data = [0.044, 0.034, 0.03, 0.03, 0.036, 0.048, 0.067, 0.093, 0.15, 0.169, 0.177, 0.184]"

definition CD_delta_elev_data :: "real list list" where
  "CD_delta_elev_data =
    [[0.0135, 0.0119, 0.0102, 0.00846, 0.0067, 0.0049, 0.00309, 0.00117, -0.0033, -0.00541, -0.00656, -0.00838],
     [0.0121, 0.0106, 0.00902, 0.00738, 0.00574, 0.00406, 0.00238, 0.00059, -0.00358, -0.00555, -0.00661, -0.00831],
     [0.00651, 0.00552, 0.00447, 0.00338, 0.00229, 0.00117, 0.0000517, -0.00114, -0.00391, -0.00522, -0.00593, -0.00706],
     [0.00249, 0.002, 0.00147, 0.000931, 0.000384, -0.000174, -0.000735, -0.00133, -0.00272, -0.00337, -0.00373, -0.00429],
     [0, 0, 0, 0, 0, 0, 0, 0, 0, 0, 0, 0],
     [-0.00089, -0.00015, 0.00064, 0.00146, 0.00228, 0.00311, 0.00395, 0.00485, 0.00693, 0.00791, 0.00844, 0.00929],
     [0.00121, 0.00261, 0.00411, 0.00566, 0.00721, 0.00879, 0.0104, 0.0121, 0.016, 0.0179, 0.0189, 0.0205],
     [0.00174, 0.00323, 0.00483, 0.00648, 0.00814, 0.00983, 0.0115, 0.0133, 0.0175, 0.0195, 0.0206, 0.0223],
     [0.00273, 0.00438, 0.00614, 0.00796, 0.0098, 0.0117, 0.0135, 0.0155, 0.0202, 0.0224, 0.0236, 0.0255]]"

definition CL_data :: "real list" where
  "CL_data = [-0.571, -0.321, -0.083, 0.148, 0.392, 0.65, 0.918, 1.195, 1.659, 1.789, 1.84, 1.889]"

definition CL_alphadot_data :: "real list" where
  "CL_alphadot_data = [2.434, 2.362, 2.253, 2.209, 2.178, 2.149, 2.069, 1.855, 1.185, 0.8333, 0.6394, 0.4971]"

definition CL_q_data :: "real list" where
  "CL_q_data = [7.282, 7.282, 7.282, 7.282, 7.282, 7.282, 7.282, 7.282, 7.282, 7.282, 7.282, 7.282]"

definition CL_delta_elev_data :: "real list" where
  "CL_delta_elev_data = [-0.132, -0.123, -0.082, -0.041, 0, 0.061, 0.116, 0.124, 0.137]"

definition CY_beta_data :: "real list" where
  "CY_beta_data = [-0.268, -0.268, -0.268, -0.268, -0.268, -0.268, -0.268, -0.268, -0.268, -0.268, -0.268, -0.268]"

definition CY_p_data :: "real list" where
  "CY_p_data = [-0.032, -0.0372, -0.0418, -0.0463, -0.051, -0.0563, -0.0617, -0.068, -0.0783, -0.0812, -0.0824, -0.083]"

definition CY_r_data :: "real list" where
  "CY_r_data = [0.2018, 0.2054, 0.2087, 0.2115, 0.2139, 0.2159, 0.2175, 0.2187, 0.2198, 0.2198, 0.2196, 0.2194]"

definition CY_delta_rud_data :: "real list" where
  "CY_delta_rud_data = map ((*) (-1))
     [0.561, 0.561, 0.561, 0.561, 0.561, 0.561, 0.561, 0.561, 0.561, 0.561, 0.561, 0.561]"

definition Cl_beta_data :: "real list" where
  "Cl_beta_data = [-0.178, -0.186, -0.1943, -0.202, -0.2103, -0.219, -0.2283, -0.2376, -0.2516, -0.255, -0.256, -0.257]"

definition Cl_p_data :: "real list" where
  "Cl_p_data = [-0.4968, -0.4678, -0.4489, -0.4595, 0.487, -0.5085, -0.5231, -0.4916, -0.301, -0.203, -0.1498, -0.0671]"

definition Cl_r_data :: "real list" where
  "Cl_r_data = [-0.09675, -0.05245, -0.01087, 0.02986, 0.07342, 0.1193, 0.1667, 0.2152, 0.2909, 0.3086, 0.3146, 0.3197]"

definition Cl_delta_rud_data :: "real list" where
  "Cl_delta_rud_data = map ((*) (-1))
     [0.091, 0.082, 0.072, 0.063, 0.053, 0.0432, 0.0333, 0.0233, 0.0033, -0.005, -0.009, -0.015]"

definition Cl_delta_aile_data :: "real list" where
  "Cl_delta_aile_data = [-0.078052, -0.059926, -0.036422, -0.018211, 0, 0.018211, 0.036422, 0.059926, 0.078052]"

definition CM_data :: "real list" where
  "CM_data = [0.0597, 0.0498, 0.0314, 0.0075, -0.0248, 0.068, -0.1227, -0.1927, -0.3779, -0.4605, -0.5043, -0.5496]"

definition CM_q_data :: "real list" where
  "CM_q_data = [-6.232, -6.232, -6.232, -6.232, -6.232, -6.232, -6.232, -6.232, -6.232, -6.232, -6.232, -6.232]"

definition CM_alphadot_data :: "real list" where
  "CM_alphadot_data = [-6.64, -6.441, -6.146, -6.025, -5.942, -5.861, -5.644, -5.059, -3.233, -2.273, -1.744, -1.356]"

definition CM_delta_elev_data :: "real list" where
  "CM_delta_elev_data = [0.3302, 0.3065, 0.2014, 0.1007, -0.0002, -0.1511, -0.2863, -0.3109, -0.345]"

definition CN_beta_data :: "real list" where
  "CN_beta_data = [0.0126, 0.0126, 0.0126, 0.0126, 0.0126, 0.0126, 0.0126, 0.0126, 0.0126, 0.0126, 0.0126, 0.0126]"

definition CN_p_data :: "real list" where
  "CN_p_data = [0.03, 0.016, 0.00262, -0.0108, -0.0245, -0.0385, -0.0528, -0.0708, -0.113, -0.1284, -0.1356, -0.1422]"

definition CN_r_data :: "real list" where
  "CN_r_data = [-0.028, -0.027, -0.027, -0.0275, -0.0293, -0.0325, -0.037, -0.043, -0.05484, -0.058, -0.0592, -0.06015]"

definition CN_delta_rud_data :: "real list" where
  "CN_delta_rud_data = map ((*) (-1))
     [-0.211, -0.215, -0.218, -0.22, -0.224, -0.226, -0.228, -0.229, -0.23, -0.23, -0.23, -0.23]"

definition CN_delta_aile_data :: "real list list" where
  "CN_delta_aile_data =
    [[-0.004321, -0.002238, -0.0002783, 0.001645, 0.003699, 0.005861, 0.008099, 0.01038, 0.01397, 0.01483, 0.01512, 0.01539],
     [-0.003318, -0.001718, -0.0002137, 0.001263, 0.00284, 0.0045, 0.006218, 0.00797, 0.01072, 0.01138, 0.01161, 0.01181],
     [-0.002016, -0.001044, -0.000123, 0.0007675, 0.00173, 0.002735, 0.0038, 0.004844, 0.00652, 0.00692, 0.00706, 0.0072],
     [-0.00101, -0.000522, -0.0000649, 0.000384, 0.000863, 0.00137, 0.0019, 0.00242, 0.00326, 0.00346, 0.00353, 0.0036],
     [0.0, 0.0, 0.0, 0.0, 0.0, 0.0, 0.0, 0.0, 0.0, 0.0, 0.0, 0.0],
     [0.00101, 0.00052, 0.000065, -0.000384, -0.00086, -0.0014, -0.002, -0.002422, -0.00326, -0.00346, -0.00353, -0.0036],
     [0.00202, 0.001044, 0.00013, -0.0008, -0.00173, -0.002735, -0.0038, -0.004844, -0.00652, -0.00692, -0.00706, -0.0072],
     [0.00332, 0.00172, 0.000214, -0.001263, -0.00284, -0.0045, -0.00622, -0.008, -0.01072, -0.01138, -0.01161, -0.01181],
     [0.004321, 0.00224, 0.00028, -0.001645, -0.0037, -0.00586, -0.0081, -0.0104, -0.014, -0.01483, -0.01512, -0.0154]]"

subsection \<open>The aircraft object\<close>

text \<open>
  The instance attributes of \<^verbatim>\<open>Cessna172\<close> that a method reads or writes. The tables
  above are attributes too; no method assigns them, so they are constants here. The
  attributes \<^verbatim>\<open>mass\<close>, \<^verbatim>\<open>inertia\<close>, \<^verbatim>\<open>control_limits\<close>, \<^verbatim>\<open>load_factor\<close>,
  \<^verbatim>\<open>CAS\<close>, \<^verbatim>\<open>EAS\<close> and \<^verbatim>\<open>Mach\<close> are set by the constructor and used by no
  method of the class; they are left out.

  \<open>controls\<close> is the dictionary of control inputs, keyed by name. \<open>CM\<close> and \<open>CN\<close> are
  attributes the constructor does not create (it creates \<open>Cm\<close> and \<open>Cn\<close>): they are
  \<open>None\<close> until a coefficient routine assigns them, and reading an absent attribute is
  an \<open>AttributeError\<close>. Arrays of three numbers are triples.
\<close>

type_synonym vec3 = "real \<times> real \<times> real"

datatype error = KeyError string | AttributeError string | ZeroDivisionError

record aircraft =
  Sw :: real
  chord :: real
  span :: real
  controls :: "string \<rightharpoonup> real"
  CL :: real
  CD :: real
  Cm :: real
  CY :: real
  Cl :: real
  Cn :: real
  Ct :: real
  CM :: "real option"
  CN :: "real option"
  gravity_force :: vec3
  total_forces :: vec3
  total_moments :: vec3
  TAS :: real
  q_inf :: real
  p :: real
  q :: real
  r :: real
  alpha :: real
  beta :: real
  alpha_dot :: real

text \<open>
  The constructor. \<^verbatim>\<open>ft2m\<close> is imported from \<^verbatim>\<open>pyfme.models.constants\<close>, which is
  not among the sources: it is a parameter.
\<close>

definition Cessna172 :: "real \<Rightarrow> aircraft" where
  "Cessna172 ft2m =
     \<lparr> Sw = 174 * ft2m\<^sup>2,
       chord = 4.9 * ft2m,
       span = 35.8 * ft2m,
       controls = [''delta_elevator'' \<mapsto> 0, ''delta_aileron'' \<mapsto> 0, ''delta_rudder'' \<mapsto> 0],
       CL = 0, CD = 0, Cm = 0,
       CY = 0, Cl = 0, Cn = 0,
       Ct = 0,
       CM = None, CN = None,
       gravity_force = (0, 0, 0),
       total_forces = (0, 0, 0),
       total_moments = (0, 0, 0),
       TAS = 0,
       q_inf = 0,
       p = 0, q = 0, r = 0,
       alpha = 0, beta = 0, alpha_dot = 0 \<rparr>"

subsection \<open>Arithmetic on arrays of three numbers\<close>

fun vadd :: "vec3 \<Rightarrow> vec3 \<Rightarrow> vec3" where
  "vadd (a1, a2, a3) (b1, b2, b3) = (a1 + b1, a2 + b2, a3 + b3)"

fun smul :: "real \<Rightarrow> vec3 \<Rightarrow> vec3" where
  "smul k (a1, a2, a3) = (k * a1, k * a2, k * a3)"

subsection \<open>The methods\<close>

text \<open>
  A method takes the object and returns what it returns, or the exception it raises,
  together with the object as the method left it. The division \<open>c / (2 * V)\<close> of two
  Python numbers raises \<open>ZeroDivisionError\<close> when \<open>2 * V\<close> is zero; it is evaluated
  in the first assignment, before any attribute is written.
\<close>

definition calculate_aero_lon_forces_moments_coeffs ::
  "spline2d \<Rightarrow> aircraft \<Rightarrow> (error + unit) \<times> aircraft" where
  "calculate_aero_lon_forces_moments_coeffs RectBivariateSpline self =
     (case controls self ''delta_elevator'' of
        None \<Rightarrow> (Inl (KeyError ''delta_elevator''), self)
      | Some delta_elevator \<Rightarrow>
          (let delta_elev = rad2deg delta_elevator;
               alpha_DEG = rad2deg (alpha self);
               c = chord self;
               V = TAS self;
               CD_interp = np_interp alpha_DEG alpha_data CD_data;
               CD_delta_elev_interp = RectBivariateSpline delta_elev_data alpha_data CD_delta_elev_data;
               CL_interp = np_interp alpha_DEG alpha_data CL_data;
               CL_alphadot_interp = np_interp alpha_DEG alpha_data CL_alphadot_data;
               CL_q_interp = np_interp alpha_DEG alpha_data CL_q_data;
               CL_delta_elev_interp = np_interp delta_elev delta_elev_data CL_delta_elev_data;
               CM_interp = np_interp alpha_DEG alpha_data CM_data;
               CM_q_interp = np_interp alpha_DEG alpha_data CM_q_data;
               CM_alphadot_interp = np_interp alpha_DEG alpha_data CM_alphadot_data;
               CM_delta_elev_interp = np_interp delta_elev delta_elev_data CM_delta_elev_data
           in if 2 * V = 0 then (Inl ZeroDivisionError, self)
              else (Inr (),
                self\<lparr> CL := CL_interp + CL_delta_elev_interp
                          + (c / (2 * V)) * (CL_alphadot_interp * alpha_dot self + CL_q_interp * q self),
                      CD := CD_interp + CD_delta_elev_interp delta_elev alpha_DEG,
                      CM := Some (CM_interp + CM_delta_elev_interp
                          + (c / (2 * V)) * (CM_q_interp * q self + CM_alphadot_interp * alpha_dot self)) \<rparr>)))"

definition calculate_aero_lat_forces_moments_coeffs ::
  "spline2d \<Rightarrow> aircraft \<Rightarrow> (error + unit) \<times> aircraft" where
  "calculate_aero_lat_forces_moments_coeffs RectBivariateSpline self =
     (case controls self ''delta_aileron'' of
        None \<Rightarrow> (Inl (KeyError ''delta_aileron''), self)
      | Some delta_aileron \<Rightarrow>
     (case controls self ''delta_rudder'' of
        None \<Rightarrow> (Inl (KeyError ''delta_rudder''), self)
      | Some delta_rud_RAD \<Rightarrow>
          (let delta_aile = rad2deg delta_aileron;
               delta_rud = rad2deg delta_rud_RAD;
               alpha_DEG = rad2deg (alpha self);
               b = span self;
               V = TAS self;
               CY_beta_interp = np_interp alpha_DEG alpha_data CY_beta_data;
               CY_p_interp = np_interp alpha_DEG alpha_data CY_p_data;
               CY_r_interp = np_interp alpha_DEG alpha_data CY_r_data;
               CY_delta_rud_interp = np_interp alpha_DEG alpha_data CY_delta_rud_data;
               Cl_beta_interp = np_interp alpha_DEG alpha_data Cl_beta_data;
               Cl_p_interp = np_interp alpha_DEG alpha_data Cl_p_data;
               Cl_r_interp = np_interp alpha_DEG alpha_data Cl_r_data;
               Cl_delta_rud_interp = np_interp alpha_DEG alpha_data Cl_delta_rud_data;
               Cl_delta_aile_interp = np_interp delta_aile delta_aile_data Cl_delta_aile_data;
               CN_beta_interp = np_interp alpha_DEG alpha_data CN_beta_data;
               CN_p_interp = np_interp alpha_DEG alpha_data CN_p_data;
               CN_r_interp = np_interp alpha_DEG alpha_data CN_r_data;
               CN_delta_rud_interp = np_interp alpha_DEG alpha_data CN_delta_rud_data;
               CN_delta_aile_interp = RectBivariateSpline delta_aile_data alpha_data CN_delta_aile_data
           in if 2 * V = 0 then (Inl ZeroDivisionError, self)
              else (Inr (),
                self\<lparr> CY := CY_beta_interp * beta self + CY_delta_rud_interp * delta_rud_RAD
                          + (b / (2 * V)) * (CY_p_interp * p self + CY_r_interp * r self),
                      Cl := Cl_beta_interp * beta self + Cl_delta_aile_interp
                          + Cl_delta_rud_interp * delta_rud_RAD
                          + (b / (2 * V)) * (Cl_p_interp * p self + Cl_r_interp * r self),
                      CN := Some (CN_beta_interp * beta self + CN_delta_aile_interp delta_aile alpha_DEG
                          + CN_delta_rud_interp * delta_rud_RAD
                          + (b / (2 * V)) * (CN_p_interp * p self + CN_r_interp * r self)) \<rparr>))))"

definition calculate_aero_forces_moments ::
  "spline2d \<Rightarrow> aircraft \<Rightarrow> (error + real \<times> real \<times> real \<times> real \<times> real \<times> real) \<times> aircraft" where
  "calculate_aero_forces_moments RectBivariateSpline self =
     (let q0 = q_inf self;
          Sw0 = Sw self;
          c = chord self;
          b = span self
      in case calculate_aero_lon_forces_moments_coeffs RectBivariateSpline self of
           (Inl e, self1) \<Rightarrow> (Inl e, self1)
         | (Inr _, self1) \<Rightarrow>
        (case calculate_aero_lat_forces_moments_coeffs RectBivariateSpline self1 of
           (Inl e, self2) \<Rightarrow> (Inl e, self2)
         | (Inr _, self2) \<Rightarrow>
        (case CM self2 of
           None \<Rightarrow> (Inl (AttributeError ''CM''), self2)
         | Some CM2 \<Rightarrow>
        (case CN self2 of
           None \<Rightarrow> (Inl (AttributeError ''CN''), self2)
         | Some CN2 \<Rightarrow>
            (let L = q0 * Sw0 * CL self2;
                 D = q0 * Sw0 * CD self2;
                 Y = q0 * Sw0 * CY self2;
                 l = q0 * Sw0 * b * Cl self2;
                 m = q0 * Sw0 * c * CM2;
                 n = q0 * Sw0 * b * CN2
             in (Inr (L, D, Y, l, m, n), self2))))))"

definition calculate_thrust_forces_moments :: "aircraft \<Rightarrow> (error + vec3) \<times> aircraft" where
  "calculate_thrust_forces_moments self =
     (let q0 = q_inf self;
          Sw0 = Sw self
      in case controls self ''delta_t'' of
           None \<Rightarrow> (Inl (KeyError ''delta_t''), self)
         | Some delta_t \<Rightarrow>
             (let self1 = self\<lparr> Ct := 0.031 * delta_t \<rparr>;
                  Ft = (q0 * Sw0 * Ct self1, 0, 0)
              in (Inr Ft, self1)))"

definition calculate_forces_and_moments ::
  "spline2d \<Rightarrow> aircraft \<Rightarrow> (error + vec3 \<times> vec3) \<times> aircraft" where
  "calculate_forces_and_moments RectBivariateSpline self =
     (case calculate_thrust_forces_moments self of
        (Inl e, self1) \<Rightarrow> (Inl e, self1)
      | (Inr Ft, self1) \<Rightarrow>
     (case calculate_aero_forces_moments RectBivariateSpline self1 of
        (Inl e, self2) \<Rightarrow> (Inl e, self2)
      | (Inr (L, D, Y, l, m, n), self2) \<Rightarrow>
          (let Fg = gravity_force self2;
               Fa = (- D, Y, - L);
               self3 = self2\<lparr> total_forces := vadd (vadd (smul 10 Ft) Fg) Fa,
                               total_moments := (l, m, n) \<rparr>
           in (Inr (total_forces self3, total_moments self3), self3))))"

subsection \<open>The caller\<close>

text \<open>
  The integrator that drives the model is not part of the class. A run of it is a list
  of steps: the caller updates the object (state, controls, gravity force), then calls
  one of the five routines. Whether the call returns or raises, the object stays as the
  call left it.
\<close>

datatype call = Lon_coeffs | Lat_coeffs | Aero_forces | Thrust_forces | Forces_and_moments

fun after_call :: "spline2d \<Rightarrow> call \<Rightarrow> aircraft \<Rightarrow> aircraft" where
  "after_call S Lon_coeffs self = snd (calculate_aero_lon_forces_moments_coeffs S self)"
| "after_call S Lat_coeffs self = snd (calculate_aero_lat_forces_moments_coeffs S self)"
| "after_call S Aero_forces self = snd (calculate_aero_forces_moments S self)"
| "after_call S Thrust_forces self = snd (calculate_thrust_forces_moments self)"
| "after_call S Forces_and_moments self = snd (calculate_forces_and_moments S self)"

fun evaluations :: "spline2d \<Rightarrow> ((aircraft \<Rightarrow> aircraft) \<times> call) list \<Rightarrow> aircraft \<Rightarrow> aircraft" where
  "evaluations S [] self = self"
| "evaluations S ((set_state, c) # rest) self = evaluations S rest (after_call S c (set_state self))"

section \<open>Properties\<close>

subsection \<open>The tables are well formed\<close>

lemma grids_increasing:
  "sorted_wrt (<) alpha_data" "sorted_wrt (<) delta_elev_data" "sorted_wrt (<) delta_aile_data"
  by (simp_all add: alpha_data_def delta_elev_data_def delta_aile_data_def)

lemma grid_lengths:
  "length alpha_data = 12" "length delta_elev_data = 9" "length delta_aile_data = 9"
  by (simp_all add: alpha_data_def delta_elev_data_def delta_aile_data_def)

lemma table_lengths:
  "length CD_data = 12" "length CL_data = 12" "length CL_alphadot_data = 12"
  "length CL_q_data = 12" "length CY_beta_data = 12" "length CY_p_data = 12"
  "length CY_r_data = 12" "length CY_delta_rud_data = 12" "length Cl_beta_data = 12"
  "length Cl_p_data = 12" "length Cl_r_data = 12" "length Cl_delta_rud_data = 12"
  "length CM_data = 12" "length CM_q_data = 12" "length CM_alphadot_data = 12"
  "length CN_beta_data = 12" "length CN_p_data = 12" "length CN_r_data = 12"
  "length CN_delta_rud_data = 12"
  "length CL_delta_elev_data = 9" "length CM_delta_elev_data = 9"
  "length Cl_delta_aile_data = 9"
  "length CD_delta_elev_data = 9" "\<forall>row \<in> set CD_delta_elev_data. length row = 12"
  "length CN_delta_aile_data = 9" "\<forall>row \<in> set CN_delta_aile_data. length row = 12"
  by (simp_all add: CD_data_def CL_data_def CL_alphadot_data_def CL_q_data_def
      CY_beta_data_def CY_p_data_def CY_r_data_def CY_delta_rud_data_def Cl_beta_data_def
      Cl_p_data_def Cl_r_data_def Cl_delta_rud_data_def CM_data_def CM_q_data_def
      CM_alphadot_data_def CN_beta_data_def CN_p_data_def CN_r_data_def
      CN_delta_rud_data_def CL_delta_elev_data_def CM_delta_elev_data_def
      Cl_delta_aile_data_def CD_delta_elev_data_def CN_delta_aile_data_def)

subsection \<open>Angles\<close>

lemma rad2deg_deg2rad: "rad2deg (deg2rad x) = x"
  by (simp add: rad2deg_def deg2rad_def)

lemma rad2deg_0: "rad2deg 0 = 0"
  by (simp add: rad2deg_def)

subsection \<open>One-dimensional interpolation\<close>

lemma search_nth:
  "sorted_wrt (<) xs \<Longrightarrow> i < length xs \<Longrightarrow> search (xs ! i) xs = i"
proof (induction xs arbitrary: i)
  case Nil
  then show ?case by simp
next
  case (Cons a xs)
  show ?case
  proof (cases xs)
    case Nil
    with Cons.prems show ?thesis by simp
  next
    case (Cons b ys)
    show ?thesis
    proof (cases i)
      case 0
      with Cons.prems Cons show ?thesis by simp
    next
      case (Suc k)
      from Cons.prems Suc have k: "k < length xs" by simp
      from Cons.prems have s: "sorted_wrt (<) xs" by simp
      have "b \<le> xs ! k"
      proof (cases k)
        case 0
        with Cons show ?thesis by simp
      next
        case (Suc m)
        with s k Cons have "b < xs ! k" by auto
        then show ?thesis by simp
      qed
      with Cons.IH [OF s k] Cons Suc show ?thesis by simp
    qed
  qed
qed

lemma np_interp_below: "x < hd xp \<Longrightarrow> np_interp x xp fp = hd fp"
  by (simp add: np_interp_def)

lemma hd_le_last:
  fixes xp :: "real list"
  assumes "sorted_wrt (<) xp" and "xp \<noteq> []"
  shows "hd xp \<le> last xp"
proof (cases "length xp = 1")
  case True
  then show ?thesis by (cases xp) auto
next
  case False
  with assms(2) have "0 < length xp - 1" "length xp - 1 < length xp"
    by (cases xp; simp)+
  from sorted_wrt_nth_less [OF assms(1) this] assms(2) show ?thesis
    by (simp add: hd_conv_nth last_conv_nth)
qed

lemma np_interp_above:
  "sorted_wrt (<) xp \<Longrightarrow> xp \<noteq> [] \<Longrightarrow> last xp < x \<Longrightarrow> np_interp x xp fp = last fp"
  using hd_le_last [of xp] by (simp add: np_interp_def)

lemma np_interp_node:
  assumes "sorted_wrt (<) xp" and "i < length xp"
  shows "np_interp (xp ! i) xp fp = fp ! i"
proof -
  from assms(2) have ne: "xp \<noteq> []" by auto
  have lo: "\<not> xp ! i < hd xp"
  proof (cases i)
    case 0
    with ne show ?thesis by (simp add: hd_conv_nth)
  next
    case (Suc k)
    with assms have "xp ! 0 < xp ! i" using sorted_wrt_nth_less [of "(<)" xp 0 i] by simp
    with ne show ?thesis by (simp add: hd_conv_nth)
  qed
  have hi: "\<not> last xp < xp ! i"
  proof (cases "i = length xp - 1")
    case True
    with ne show ?thesis by (simp add: last_conv_nth)
  next
    case False
    with assms have "xp ! i < xp ! (length xp - 1)"
      using sorted_wrt_nth_less [of "(<)" xp i "length xp - 1"] by simp
    with ne show ?thesis by (simp add: last_conv_nth)
  qed
  from lo hi search_nth [OF assms] show ?thesis by (simp add: np_interp_def)
qed

text \<open>
  C9. A one-dimensional lookup on an increasing, non-empty grid returns the tabulated value at
  every grid point, the first table value below the grid and the last table value above
  it; no linear extrapolation takes place. In particular the static drag coefficient at
  an angle of attack of -30 degrees is 0.044, the value tabulated at -7.5 degrees.
\<close>

theorem np_interp_nodes_and_flat:
  assumes "sorted_wrt (<) xp" and "xp \<noteq> []" and "length fp = length xp"
  shows "(\<forall>i < length xp. np_interp (xp ! i) xp fp = fp ! i)
       \<and> (\<forall>x. x < hd xp \<longrightarrow> np_interp x xp fp = hd fp)
       \<and> (\<forall>x. last xp < x \<longrightarrow> np_interp x xp fp = last fp)
       \<and> np_interp (rad2deg (deg2rad (- 30))) alpha_data CD_data = 0.044"
proof -
  have "np_interp (- 30) alpha_data CD_data = 0.044"
    by (simp add: np_interp_def alpha_data_def CD_data_def)
  with assms(1,2) show ?thesis
    by (simp add: np_interp_node np_interp_below np_interp_above rad2deg_deg2rad)
qed

theorem np_interp_nodes_and_flat_witness:
  "sorted_wrt (<) alpha_data \<and> alpha_data \<noteq> [] \<and> length CD_data = length alpha_data
   \<and> np_interp 10 alpha_data CD_data = 0.093
   \<and> np_interp (- 8) alpha_data CD_data = 0.044
   \<and> np_interp 20 alpha_data CD_data = 0.184"
proof -
  have s: "sorted_wrt (<) alpha_data" by (rule grids_increasing)
  have l: "length CD_data = length alpha_data" by (simp add: table_lengths grid_lengths)
  have n: "alpha_data ! 7 = 10" "CD_data ! 7 = 0.093" "hd alpha_data = - 7.5"
    "last alpha_data = 19.5" "hd CD_data = 0.044" "last CD_data = 0.184"
    by (simp_all add: alpha_data_def CD_data_def)
  have e: "alpha_data \<noteq> []" by (simp add: alpha_data_def)
  note t = np_interp_nodes_and_flat [OF s e l]
  from t have "np_interp (alpha_data ! 7) alpha_data CD_data = CD_data ! 7"
    by (simp add: grid_lengths)
  moreover from t have "np_interp (- 8) alpha_data CD_data = hd CD_data"
    by (simp add: n)
  moreover from t have "np_interp 20 alpha_data CD_data = last CD_data"
    by (simp add: n)
  ultimately show ?thesis using s e l by (simp add: n)
qed

subsection \<open>Grid bounds and the sample evaluator\<close>

lemma clamp_inside: "hd xs \<le> u \<Longrightarrow> u \<le> last xs \<Longrightarrow> clamp xs u = u"
  by (simp add: clamp_def)

lemma bilinear_interpolates:
  assumes "sorted_wrt (<) xs" and "sorted_wrt (<) ys" and "length zs = length xs"
  shows "interpolates bilinear xs ys zs"
  unfolding interpolates_def bilinear_def
  using assms by (simp add: np_interp_node)

subsection \<open>What the routines return\<close>

lemma thrust_cases:
  "calculate_thrust_forces_moments self =
     (case controls self ''delta_t'' of
        None \<Rightarrow> (Inl (KeyError ''delta_t''), self)
      | Some dt \<Rightarrow> (Inr (q_inf self * Sw self * (0.031 * dt), 0, 0), self\<lparr>Ct := 0.031 * dt\<rparr>))"
  by (simp add: calculate_thrust_forces_moments_def Let_def split: option.splits)

lemma lon_shape:
  "(\<exists>e. calculate_aero_lon_forces_moments_coeffs S self = (Inl e, self))
   \<or> (\<exists>cl cd cm. calculate_aero_lon_forces_moments_coeffs S self
                     = (Inr (), self\<lparr>CL := cl, CD := cd, CM := Some cm\<rparr>))"
  unfolding calculate_aero_lon_forces_moments_coeffs_def Let_def
  by (cases "controls self ''delta_elevator''"; cases "TAS self = 0"; simp; blast)

lemma lat_shape:
  "(\<exists>e. calculate_aero_lat_forces_moments_coeffs S self = (Inl e, self))
   \<or> (\<exists>cy cl cn. calculate_aero_lat_forces_moments_coeffs S self
                     = (Inr (), self\<lparr>CY := cy, Cl := cl, CN := Some cn\<rparr>))"
  unfolding calculate_aero_lat_forces_moments_coeffs_def Let_def
  by (cases "controls self ''delta_aileron''"; cases "controls self ''delta_rudder''";
      cases "TAS self = 0"; simp; blast)

lemma lon_success:
  assumes "controls self ''delta_elevator'' = Some de" and "TAS self \<noteq> 0"
  shows "\<exists>cl cd cm. calculate_aero_lon_forces_moments_coeffs S self
                     = (Inr (), self\<lparr>CL := cl, CD := cd, CM := Some cm\<rparr>)"
  unfolding calculate_aero_lon_forces_moments_coeffs_def Let_def
  using assms by simp blast

lemma lat_success:
  assumes "controls self ''delta_aileron'' = Some da" and "controls self ''delta_rudder'' = Some dr"
    and "TAS self \<noteq> 0"
  shows "\<exists>cy cl cn. calculate_aero_lat_forces_moments_coeffs S self
                     = (Inr (), self\<lparr>CY := cy, Cl := cl, CN := Some cn\<rparr>)"
  unfolding calculate_aero_lat_forces_moments_coeffs_def Let_def
  using assms by simp blast

lemma lon_zero_division:
  assumes "controls self ''delta_elevator'' = Some de" and "TAS self = 0"
  shows "calculate_aero_lon_forces_moments_coeffs S self = (Inl ZeroDivisionError, self)"
  using assms by (simp add: calculate_aero_lon_forces_moments_coeffs_def Let_def)

lemma aero_success:
  assumes "controls self ''delta_elevator'' = Some de"
    and "controls self ''delta_aileron'' = Some da" and "controls self ''delta_rudder'' = Some dr"
    and "TAS self \<noteq> 0"
  shows "\<exists>cl cd cm cy cl' cn.
      calculate_aero_lon_forces_moments_coeffs S self = (Inr (), self\<lparr>CL := cl, CD := cd, CM := Some cm\<rparr>)
    \<and> calculate_aero_lat_forces_moments_coeffs S (self\<lparr>CL := cl, CD := cd, CM := Some cm\<rparr>)
        = (Inr (), self\<lparr>CL := cl, CD := cd, CM := Some cm, CY := cy, Cl := cl', CN := Some cn\<rparr>)
    \<and> calculate_aero_forces_moments S self =
        (Inr (q_inf self * Sw self * cl, q_inf self * Sw self * cd, q_inf self * Sw self * cy,
              q_inf self * Sw self * span self * cl', q_inf self * Sw self * chord self * cm,
              q_inf self * Sw self * span self * cn),
         self\<lparr>CL := cl, CD := cd, CM := Some cm, CY := cy, Cl := cl', CN := Some cn\<rparr>)"
proof -
  from lon_success [OF assms(1,4)] obtain cl cd cm where
    lon: "calculate_aero_lon_forces_moments_coeffs S self = (Inr (), self\<lparr>CL := cl, CD := cd, CM := Some cm\<rparr>)"
    by blast
  let ?s1 = "self\<lparr>CL := cl, CD := cd, CM := Some cm\<rparr>"
  from assms have "controls ?s1 ''delta_aileron'' = Some da" "controls ?s1 ''delta_rudder'' = Some dr"
    "TAS ?s1 \<noteq> 0" by simp_all
  from lat_success [OF this] obtain cy cl' cn where
    lat: "calculate_aero_lat_forces_moments_coeffs S ?s1 = (Inr (), ?s1\<lparr>CY := cy, Cl := cl', CN := Some cn\<rparr>)"
    by blast
  from lon lat have "calculate_aero_forces_moments S self =
        (Inr (q_inf self * Sw self * cl, q_inf self * Sw self * cd, q_inf self * Sw self * cy,
              q_inf self * Sw self * span self * cl', q_inf self * Sw self * chord self * cm,
              q_inf self * Sw self * span self * cn),
         self\<lparr>CL := cl, CD := cd, CM := Some cm, CY := cy, Cl := cl', CN := Some cn\<rparr>)"
    by (simp add: calculate_aero_forces_moments_def Let_def)
  with lon lat show ?thesis by blast
qed

subsection \<open>The longitudinal coefficients\<close>

text \<open>
  C6. With a positive airspeed (and the elevator deflection set), the longitudinal
  routine succeeds and assigns
  \<open>CL = CL(\<alpha>) + CL_\<delta>e(\<delta>e) + (c / (2 V)) (CL_\<alpha>dot(\<alpha>) \<alpha>dot + CL_q(\<alpha>) q)\<close>,
  \<open>CD = CD(\<alpha>) + CD_\<delta>e(\<delta>e, \<alpha>)\<close> and
  \<open>CM = CM(\<alpha>) + CM_\<delta>e(\<delta>e) + (c / (2 V)) (CM_q(\<alpha>) q + CM_\<alpha>dot(\<alpha>) \<alpha>dot)\<close>,
  where the static and rate derivatives are one-dimensional lookups on the angle of
  attack grid, in degrees, the elevator terms of \<open>CL\<close> and \<open>CM\<close> are one-dimensional
  lookups on the elevator grid, in degrees, and the elevator term of \<open>CD\<close> is the
  two-dimensional lookup. Nothing else of the object changes.
\<close>

theorem lon_coefficients_formula:
  assumes "0 < TAS self" and "controls self ''delta_elevator'' = Some delta_e"
  shows "calculate_aero_lon_forces_moments_coeffs S self =
    (Inr (),
     self\<lparr> CL := np_interp (rad2deg (alpha self)) alpha_data CL_data
                 + np_interp (rad2deg delta_e) delta_elev_data CL_delta_elev_data
                 + (chord self / (2 * TAS self))
                   * (np_interp (rad2deg (alpha self)) alpha_data CL_alphadot_data * alpha_dot self
                      + np_interp (rad2deg (alpha self)) alpha_data CL_q_data * q self),
           CD := np_interp (rad2deg (alpha self)) alpha_data CD_data
                 + S delta_elev_data alpha_data CD_delta_elev_data
                     (rad2deg delta_e) (rad2deg (alpha self)),
           CM := Some (np_interp (rad2deg (alpha self)) alpha_data CM_data
                 + np_interp (rad2deg delta_e) delta_elev_data CM_delta_elev_data
                 + (chord self / (2 * TAS self))
                   * (np_interp (rad2deg (alpha self)) alpha_data CM_q_data * q self
                      + np_interp (rad2deg (alpha self)) alpha_data CM_alphadot_data * alpha_dot self)) \<rparr>)"
  using assms by (simp add: calculate_aero_lon_forces_moments_coeffs_def Let_def)

text \<open>
  At 5 degrees angle of attack, -5 degrees of elevator, 50 m/s, \<open>q = 0.1\<close> and
  \<open>\<alpha>dot = 0.2\<close>, with a chord of one metre and the bilinear evaluator:
  \<open>CL = 0.65 - 0.041 + 0.01 (2.149 \<cdot> 0.2 + 7.282 \<cdot> 0.1)\<close>,
  \<open>CD = 0.048 - 0.000174\<close> and
  \<open>CM = 0.068 + 0.1007 + 0.01 (-6.232 \<cdot> 0.1 - 5.861 \<cdot> 0.2)\<close>.
\<close>

theorem lon_coefficients_formula_witness:
  "(let self = (Cessna172 0.3048)\<lparr> chord := 1, TAS := 50, alpha := deg2rad 5, q := 0.1,
        alpha_dot := 0.2,
        controls := (controls (Cessna172 0.3048))(''delta_elevator'' \<mapsto> deg2rad (- 5)) \<rparr>;
        self' = snd (calculate_aero_lon_forces_moments_coeffs bilinear self)
    in 0 < TAS self \<and> controls self ''delta_elevator'' = Some (deg2rad (- 5))
       \<and> fst (calculate_aero_lon_forces_moments_coeffs bilinear self) = Inr ()
       \<and> CL self' = 0.62058 \<and> CD self' = 0.047826 \<and> CM self' = Some 0.150746)"
proof -
  let ?self = "(Cessna172 0.3048)\<lparr> chord := 1, TAS := 50, alpha := deg2rad 5, q := 0.1,
        alpha_dot := 0.2,
        controls := (controls (Cessna172 0.3048))(''delta_elevator'' \<mapsto> deg2rad (- 5)) \<rparr>"
  have v: "0 < TAS ?self" by simp
  have k: "controls ?self ''delta_elevator'' = Some (deg2rad (- 5))" by simp
  have a: "alpha ?self = deg2rad 5" "alpha_dot ?self = 0.2" "q ?self = 0.1" "chord ?self = 1"
    "TAS ?self = 50"
    by simp_all
  have n: "np_interp 5 alpha_data CL_data = 0.65"
    "np_interp (- 5) delta_elev_data CL_delta_elev_data = - 0.041"
    "np_interp 5 alpha_data CL_alphadot_data = 2.149"
    "np_interp 5 alpha_data CL_q_data = 7.282"
    "np_interp 5 alpha_data CD_data = 0.048"
    "np_interp 5 alpha_data CM_data = 0.068"
    "np_interp (- 5) delta_elev_data CM_delta_elev_data = 0.1007"
    "np_interp 5 alpha_data CM_q_data = - 6.232"
    "np_interp 5 alpha_data CM_alphadot_data = - 5.861"
    by (simp_all add: np_interp_def alpha_data_def delta_elev_data_def CL_data_def
        CL_delta_elev_data_def CL_alphadot_data_def CL_q_data_def CD_data_def CM_data_def
        CM_delta_elev_data_def CM_q_data_def CM_alphadot_data_def)
  have "interpolates bilinear delta_elev_data alpha_data CD_delta_elev_data"
    by (rule bilinear_interpolates) (simp_all add: grids_increasing table_lengths grid_lengths)
  then have "bilinear delta_elev_data alpha_data CD_delta_elev_data
      (delta_elev_data ! 3) (alpha_data ! 5) = CD_delta_elev_data ! 3 ! 5"
    by (simp add: interpolates_def grid_lengths)
  then have b: "bilinear delta_elev_data alpha_data CD_delta_elev_data (- 5) 5 = - 0.000174"
    by (simp add: delta_elev_data_def alpha_data_def CD_delta_elev_data_def)
  show ?thesis
    unfolding Let_def lon_coefficients_formula [OF v k]
    by (simp add: a n b rad2deg_deg2rad del: aircraft.simps)
qed

subsection \<open>The lateral-directional coefficients\<close>

text \<open>
  C7. With a positive airspeed (and the aileron and rudder deflections set), the
  lateral-directional routine succeeds and assigns
  \<open>CY = CY_\<beta>(\<alpha>) \<beta> + CY_\<delta>r(\<alpha>) \<delta>r + (b / (2 V)) (CY_p(\<alpha>) p + CY_r(\<alpha>) r)\<close>,
  \<open>Cl = Cl_\<beta>(\<alpha>) \<beta> + Cl_\<delta>a(\<delta>a) + Cl_\<delta>r(\<alpha>) \<delta>r + (b / (2 V)) (Cl_p(\<alpha>) p + Cl_r(\<alpha>) r)\<close> and
  \<open>CN = CN_\<beta>(\<alpha>) \<beta> + CN_\<delta>a(\<delta>a, \<alpha>) + CN_\<delta>r(\<alpha>) \<delta>r + (b / (2 V)) (CN_p(\<alpha>) p + CN_r(\<alpha>) r)\<close>.
  The derivatives are one-dimensional lookups on the angle of attack grid, in degrees;
  the aileron term of \<open>Cl\<close> is a one-dimensional lookup on the aileron grid and that of
  \<open>CN\<close> the two-dimensional lookup, both in degrees; \<open>\<beta>\<close> and \<open>\<delta>r\<close> enter in radians,
  each only as a factor of its derivative: replacing \<open>\<beta>\<close> (or \<open>\<delta>r\<close>) by \<open>x\<close> gives the
  coefficient at \<open>\<beta> = 0\<close> (\<open>\<delta>r = 0\<close>) plus the derivative times \<open>x\<close>. Nothing else of
  the object changes.
\<close>

theorem lat_coefficients_formula:
  assumes "0 < TAS self"
    and "controls self ''delta_aileron'' = Some delta_a"
    and "controls self ''delta_rudder'' = Some delta_r"
  shows "calculate_aero_lat_forces_moments_coeffs S self =
    (Inr (),
     self\<lparr> CY := np_interp (rad2deg (alpha self)) alpha_data CY_beta_data * beta self
                 + np_interp (rad2deg (alpha self)) alpha_data CY_delta_rud_data * delta_r
                 + (span self / (2 * TAS self))
                   * (np_interp (rad2deg (alpha self)) alpha_data CY_p_data * p self
                      + np_interp (rad2deg (alpha self)) alpha_data CY_r_data * r self),
           Cl := np_interp (rad2deg (alpha self)) alpha_data Cl_beta_data * beta self
                 + np_interp (rad2deg delta_a) delta_aile_data Cl_delta_aile_data
                 + np_interp (rad2deg (alpha self)) alpha_data Cl_delta_rud_data * delta_r
                 + (span self / (2 * TAS self))
                   * (np_interp (rad2deg (alpha self)) alpha_data Cl_p_data * p self
                      + np_interp (rad2deg (alpha self)) alpha_data Cl_r_data * r self),
           CN := Some (np_interp (rad2deg (alpha self)) alpha_data CN_beta_data * beta self
                 + S delta_aile_data alpha_data CN_delta_aile_data
                     (rad2deg delta_a) (rad2deg (alpha self))
                 + np_interp (rad2deg (alpha self)) alpha_data CN_delta_rud_data * delta_r
                 + (span self / (2 * TAS self))
                   * (np_interp (rad2deg (alpha self)) alpha_data CN_p_data * p self
                      + np_interp (rad2deg (alpha self)) alpha_data CN_r_data * r self)) \<rparr>)
    \<and> (\<forall>x. let at_0 = snd (calculate_aero_lat_forces_moments_coeffs S (self\<lparr>beta := 0\<rparr>));
               at_x = snd (calculate_aero_lat_forces_moments_coeffs S (self\<lparr>beta := x\<rparr>))
           in CY at_x = CY at_0 + np_interp (rad2deg (alpha self)) alpha_data CY_beta_data * x
            \<and> Cl at_x = Cl at_0 + np_interp (rad2deg (alpha self)) alpha_data Cl_beta_data * x
            \<and> CN at_x = map_option
                 (\<lambda>c. c + np_interp (rad2deg (alpha self)) alpha_data CN_beta_data * x) (CN at_0))
    \<and> (\<forall>x. let at_0 = snd (calculate_aero_lat_forces_moments_coeffs S
                 (self\<lparr>controls := (controls self)(''delta_rudder'' \<mapsto> 0)\<rparr>));
               at_x = snd (calculate_aero_lat_forces_moments_coeffs S
                 (self\<lparr>controls := (controls self)(''delta_rudder'' \<mapsto> x)\<rparr>))
           in CY at_x = CY at_0 + np_interp (rad2deg (alpha self)) alpha_data CY_delta_rud_data * x
            \<and> Cl at_x = Cl at_0 + np_interp (rad2deg (alpha self)) alpha_data Cl_delta_rud_data * x
            \<and> CN at_x = map_option
                 (\<lambda>c. c + np_interp (rad2deg (alpha self)) alpha_data CN_delta_rud_data * x) (CN at_0))"
  using assms by (simp add: calculate_aero_lat_forces_moments_coeffs_def Let_def)

text \<open>
  At 5 degrees angle of attack, 5 degrees of aileron, \<open>\<beta> = 0.1\<close>, \<open>\<delta>r = 0.2\<close>,
  \<open>p = 0.1\<close>, \<open>r = 0.2\<close>, 50 m/s, with a span of one metre and the bilinear evaluator:
  \<open>CY = -0.268 \<cdot> 0.1 - 0.561 \<cdot> 0.2 + 0.01 (-0.0563 \<cdot> 0.1 + 0.2159 \<cdot> 0.2)\<close>,
  \<open>Cl = -0.219 \<cdot> 0.1 + 0.018211 - 0.0432 \<cdot> 0.2 + 0.01 (-0.5085 \<cdot> 0.1 + 0.1193 \<cdot> 0.2)\<close>,
  \<open>CN = 0.0126 \<cdot> 0.1 - 0.0014 + 0.226 \<cdot> 0.2 + 0.01 (-0.0385 \<cdot> 0.1 - 0.0325 \<cdot> 0.2)\<close>.
\<close>

theorem lat_coefficients_formula_witness:
  "(let self = (Cessna172 0.3048)\<lparr> span := 1, TAS := 50, alpha := deg2rad 5, beta := 0.1,
        p := 0.1, r := 0.2,
        controls := (controls (Cessna172 0.3048))
          (''delta_aileron'' \<mapsto> deg2rad 5, ''delta_rudder'' \<mapsto> 0.2) \<rparr>;
        self' = snd (calculate_aero_lat_forces_moments_coeffs bilinear self)
    in 0 < TAS self \<and> controls self ''delta_aileron'' = Some (deg2rad 5)
       \<and> controls self ''delta_rudder'' = Some 0.2
       \<and> fst (calculate_aero_lat_forces_moments_coeffs bilinear self) = Inr ()
       \<and> CY self' = - 0.1386245 \<and> Cl self' = - 0.0125989 \<and> CN self' = Some 0.0449565)"
proof -
  let ?self = "(Cessna172 0.3048)\<lparr> span := 1, TAS := 50, alpha := deg2rad 5, beta := 0.1,
        p := 0.1, r := 0.2,
        controls := (controls (Cessna172 0.3048))
          (''delta_aileron'' \<mapsto> deg2rad 5, ''delta_rudder'' \<mapsto> 0.2) \<rparr>"
  have v: "0 < TAS ?self" by simp
  have k: "controls ?self ''delta_aileron'' = Some (deg2rad 5)"
    "controls ?self ''delta_rudder'' = Some 0.2" by simp_all
  have a: "alpha ?self = deg2rad 5" "beta ?self = 0.1" "p ?self = 0.1" "r ?self = 0.2"
    "span ?self = 1" "TAS ?self = 50"
    by simp_all
  have n: "np_interp 5 alpha_data CY_beta_data = - 0.268"
    "np_interp 5 alpha_data CY_delta_rud_data = - 0.561"
    "np_interp 5 alpha_data CY_p_data = - 0.0563"
    "np_interp 5 alpha_data CY_r_data = 0.2159"
    "np_interp 5 alpha_data Cl_beta_data = - 0.219"
    "np_interp 5 delta_aile_data Cl_delta_aile_data = 0.018211"
    "np_interp 5 alpha_data Cl_delta_rud_data = - 0.0432"
    "np_interp 5 alpha_data Cl_p_data = - 0.5085"
    "np_interp 5 alpha_data Cl_r_data = 0.1193"
    "np_interp 5 alpha_data CN_beta_data = 0.0126"
    "np_interp 5 alpha_data CN_delta_rud_data = 0.226"
    "np_interp 5 alpha_data CN_p_data = - 0.0385"
    "np_interp 5 alpha_data CN_r_data = - 0.0325"
    by (simp_all add: np_interp_def alpha_data_def delta_aile_data_def CY_beta_data_def
        CY_delta_rud_data_def CY_p_data_def CY_r_data_def Cl_beta_data_def
        Cl_delta_aile_data_def Cl_delta_rud_data_def Cl_p_data_def Cl_r_data_def
        CN_beta_data_def CN_delta_rud_data_def CN_p_data_def CN_r_data_def)
  have "interpolates bilinear delta_aile_data alpha_data CN_delta_aile_data"
    by (rule bilinear_interpolates) (simp_all add: grids_increasing table_lengths grid_lengths)
  then have "bilinear delta_aile_data alpha_data CN_delta_aile_data
      (delta_aile_data ! 5) (alpha_data ! 5) = CN_delta_aile_data ! 5 ! 5"
    by (simp add: interpolates_def grid_lengths)
  then have b: "bilinear delta_aile_data alpha_data CN_delta_aile_data 5 5 = - 0.0014"
    by (simp add: delta_aile_data_def alpha_data_def CN_delta_aile_data_def)
  from lat_coefficients_formula [OF v k, of bilinear] show ?thesis
    unfolding Let_def
    by (simp add: a n b rad2deg_deg2rad del: aircraft.simps)
qed

subsection \<open>What the routines leave alone\<close>

lemma lon_frame:
  "\<exists>cl cd cm. snd (calculate_aero_lon_forces_moments_coeffs S self)
                 = self\<lparr>CL := cl, CD := cd, CM := cm\<rparr>"
proof -
  from lon_shape [of S self] show ?thesis
  proof
    assume "\<exists>e. calculate_aero_lon_forces_moments_coeffs S self = (Inl e, self)"
    then obtain e where "calculate_aero_lon_forces_moments_coeffs S self = (Inl e, self)" ..
    then have "snd (calculate_aero_lon_forces_moments_coeffs S self)
        = self\<lparr>CL := CL self, CD := CD self, CM := CM self\<rparr>" by simp
    then show ?thesis by blast
  next
    assume "\<exists>cl cd cm. calculate_aero_lon_forces_moments_coeffs S self
                     = (Inr (), self\<lparr>CL := cl, CD := cd, CM := Some cm\<rparr>)"
    then obtain cl cd cm where "calculate_aero_lon_forces_moments_coeffs S self
                     = (Inr (), self\<lparr>CL := cl, CD := cd, CM := Some cm\<rparr>)" by blast
    then have "snd (calculate_aero_lon_forces_moments_coeffs S self)
        = self\<lparr>CL := cl, CD := cd, CM := Some cm\<rparr>" by simp
    then show ?thesis by blast
  qed
qed

lemma lat_frame:
  "\<exists>cy cl cn. snd (calculate_aero_lat_forces_moments_coeffs S self)
                 = self\<lparr>CY := cy, Cl := cl, CN := cn\<rparr>"
proof -
  from lat_shape [of S self] show ?thesis
  proof
    assume "\<exists>e. calculate_aero_lat_forces_moments_coeffs S self = (Inl e, self)"
    then obtain e where "calculate_aero_lat_forces_moments_coeffs S self = (Inl e, self)" ..
    then have "snd (calculate_aero_lat_forces_moments_coeffs S self)
        = self\<lparr>CY := CY self, Cl := Cl self, CN := CN self\<rparr>" by simp
    then show ?thesis by blast
  next
    assume "\<exists>cy cl cn. calculate_aero_lat_forces_moments_coeffs S self
                     = (Inr (), self\<lparr>CY := cy, Cl := cl, CN := Some cn\<rparr>)"
    then obtain cy cl cn where "calculate_aero_lat_forces_moments_coeffs S self
                     = (Inr (), self\<lparr>CY := cy, Cl := cl, CN := Some cn\<rparr>)" by blast
    then have "snd (calculate_aero_lat_forces_moments_coeffs S self)
        = self\<lparr>CY := cy, Cl := cl, CN := Some cn\<rparr>" by simp
    then show ?thesis by blast
  qed
qed

lemma aero_frame:
  "\<exists>cl cd cm cy cl' cn. snd (calculate_aero_forces_moments S self)
      = self\<lparr>CL := cl, CD := cd, CM := cm, CY := cy, Cl := cl', CN := cn\<rparr>"
proof -
  obtain r1 s1 where lon: "calculate_aero_lon_forces_moments_coeffs S self = (r1, s1)"
    by force
  obtain r2 s2 where lat: "calculate_aero_lat_forces_moments_coeffs S s1 = (r2, s2)"
    by force
  from lon_frame [of S self] lon obtain cl cd cm where
    s1: "s1 = self\<lparr>CL := cl, CD := cd, CM := cm\<rparr>" by auto
  from lat_frame [of S s1] lat obtain cy cl' cn where
    s2: "s2 = s1\<lparr>CY := cy, Cl := cl', CN := cn\<rparr>" by auto
  have "snd (calculate_aero_forces_moments S self) = s1
      \<or> snd (calculate_aero_forces_moments S self) = s2"
    by (simp add: calculate_aero_forces_moments_def Let_def lon lat
        split: sum.splits option.splits)
  then show ?thesis
  proof
    assume "snd (calculate_aero_forces_moments S self) = s1"
    with s1 have "snd (calculate_aero_forces_moments S self)
      = self\<lparr>CL := cl, CD := cd, CM := cm, CY := CY self, Cl := Cl self, CN := CN self\<rparr>"
      by simp
    then show ?thesis by blast
  next
    assume "snd (calculate_aero_forces_moments S self) = s2"
    with s1 s2 have "snd (calculate_aero_forces_moments S self)
      = self\<lparr>CL := cl, CD := cd, CM := cm, CY := cy, Cl := cl', CN := cn\<rparr>"
      by simp
    then show ?thesis by blast
  qed
qed

lemma thrust_frame:
  "\<exists>ct. snd (calculate_thrust_forces_moments self) = self\<lparr>Ct := ct\<rparr>"
proof (cases "controls self ''delta_t''")
  case None
  then have "snd (calculate_thrust_forces_moments self) = self\<lparr>Ct := Ct self\<rparr>"
    by (simp add: thrust_cases)
  then show ?thesis by blast
next
  case (Some dt)
  then have "snd (calculate_thrust_forces_moments self) = self\<lparr>Ct := 0.031 * dt\<rparr>"
    by (simp add: thrust_cases)
  then show ?thesis by blast
qed

lemma forces_and_moments_frame:
  "\<exists>ct cl cd cm cy cl' cn tf tm. snd (calculate_forces_and_moments S self)
      = self\<lparr>Ct := ct, CL := cl, CD := cd, CM := cm, CY := cy, Cl := cl', CN := cn,
              total_forces := tf, total_moments := tm\<rparr>"
proof -
  obtain r1 s1 where t: "calculate_thrust_forces_moments self = (r1, s1)" by force
  obtain r2 s2 where a: "calculate_aero_forces_moments S s1 = (r2, s2)" by force
  from thrust_frame [of self] t obtain ct where s1: "s1 = self\<lparr>Ct := ct\<rparr>" by auto
  from aero_frame [of S s1] a obtain cl cd cm cy cl' cn where
    s2: "s2 = s1\<lparr>CL := cl, CD := cd, CM := cm, CY := cy, Cl := cl', CN := cn\<rparr>" by auto
  show ?thesis
  proof (cases r1)
    case (Inl e)
    with t s1 have "snd (calculate_forces_and_moments S self)
      = self\<lparr>Ct := ct, CL := CL self, CD := CD self, CM := CM self, CY := CY self,
              Cl := Cl self, CN := CN self,
              total_forces := total_forces self, total_moments := total_moments self\<rparr>"
      by (simp add: calculate_forces_and_moments_def)
    then show ?thesis by blast
  next
    case Ft: (Inr Ft)
    show ?thesis
    proof (cases r2)
      case (Inl e)
      with Ft t a s1 s2 have "snd (calculate_forces_and_moments S self)
        = self\<lparr>Ct := ct, CL := cl, CD := cd, CM := cm, CY := cy, Cl := cl', CN := cn,
              total_forces := total_forces self, total_moments := total_moments self\<rparr>"
        by (simp add: calculate_forces_and_moments_def)
      then show ?thesis by blast
    next
      case (Inr x)
      obtain L D Y l m n where "x = (L, D, Y, l, m, n)" by (cases x) auto
      with Inr Ft t a s1 s2 have "snd (calculate_forces_and_moments S self)
        = self\<lparr>Ct := ct, CL := cl, CD := cd, CM := cm, CY := cy, Cl := cl', CN := cn,
              total_forces := vadd (vadd (smul 10 Ft) (gravity_force s2)) (- D, Y, - L),
              total_moments := (l, m, n)\<rparr>"
        by (simp add: calculate_forces_and_moments_def Let_def)
      then show ?thesis by blast
    qed
  qed
qed

subsection \<open>Thrust and the total force\<close>

text \<open>
  C8. With the throttle set, the thrust routine assigns \<open>Ct = 0.031 \<cdot> delta_t\<close> and
  returns the force \<open>(q\<^sub>\<infinity> \<cdot> Sw \<cdot> Ct, 0, 0)\<close>, along the body x axis only.
  \<open>calculate_forces_and_moments\<close> returns, from the aerodynamic forces and moments
  \<open>(L, D, Y, l, m, n)\<close> of the same evaluation, the total force
  \<open>10 \<cdot> thrust + gravity_force + (-D, Y, -L)\<close> and the total moment \<open>(l, m, n)\<close>, and
  stores both in the object. The aerodynamic part is returned whenever the airspeed is
  not zero and the three deflections are set.
\<close>

theorem thrust_and_total_force:
  assumes "controls self ''delta_t'' = Some delta_t"
  shows "calculate_thrust_forces_moments self =
           (Inr (q_inf self * Sw self * (0.031 * delta_t), 0, 0), self\<lparr>Ct := 0.031 * delta_t\<rparr>)
    \<and> (\<forall>L D Y l m n self2.
          calculate_aero_forces_moments S (self\<lparr>Ct := 0.031 * delta_t\<rparr>)
            = (Inr (L, D, Y, l, m, n), self2)
          \<longrightarrow> calculate_forces_and_moments S self =
               (Inr (vadd (vadd (smul 10 (q_inf self * Sw self * (0.031 * delta_t), 0, 0))
                                (gravity_force self2)) (- D, Y, - L),
                     (l, m, n)),
                self2\<lparr> total_forces :=
                          vadd (vadd (smul 10 (q_inf self * Sw self * (0.031 * delta_t), 0, 0))
                                     (gravity_force self2)) (- D, Y, - L),
                        total_moments := (l, m, n) \<rparr>)
              \<and> gravity_force self2 = gravity_force self)
    \<and> (TAS self \<noteq> 0 \<and> controls self ''delta_elevator'' \<noteq> None
          \<and> controls self ''delta_aileron'' \<noteq> None \<and> controls self ''delta_rudder'' \<noteq> None
        \<longrightarrow> (\<exists>L D Y l m n self2.
              calculate_aero_forces_moments S (self\<lparr>Ct := 0.031 * delta_t\<rparr>)
                = (Inr (L, D, Y, l, m, n), self2)))"
proof (intro conjI allI impI)
  show t: "calculate_thrust_forces_moments self =
           (Inr (q_inf self * Sw self * (0.031 * delta_t), 0, 0), self\<lparr>Ct := 0.031 * delta_t\<rparr>)"
    using assms by (simp add: thrust_cases)
  {
    fix L D Y l m n self2
    assume a: "calculate_aero_forces_moments S (self\<lparr>Ct := 0.031 * delta_t\<rparr>)
            = (Inr (L, D, Y, l, m, n), self2)"
    with t show "calculate_forces_and_moments S self =
               (Inr (vadd (vadd (smul 10 (q_inf self * Sw self * (0.031 * delta_t), 0, 0))
                                (gravity_force self2)) (- D, Y, - L),
                     (l, m, n)),
                self2\<lparr> total_forces :=
                          vadd (vadd (smul 10 (q_inf self * Sw self * (0.031 * delta_t), 0, 0))
                                     (gravity_force self2)) (- D, Y, - L),
                        total_moments := (l, m, n) \<rparr>)"
      by (simp add: calculate_forces_and_moments_def Let_def)
    from aero_frame [of S "self\<lparr>Ct := 0.031 * delta_t\<rparr>"] a
    show "gravity_force self2 = gravity_force self" by auto
  }
  assume "TAS self \<noteq> 0 \<and> controls self ''delta_elevator'' \<noteq> None
          \<and> controls self ''delta_aileron'' \<noteq> None \<and> controls self ''delta_rudder'' \<noteq> None"
  then obtain de da dr where
    "controls (self\<lparr>Ct := 0.031 * delta_t\<rparr>) ''delta_elevator'' = Some de"
    "controls (self\<lparr>Ct := 0.031 * delta_t\<rparr>) ''delta_aileron'' = Some da"
    "controls (self\<lparr>Ct := 0.031 * delta_t\<rparr>) ''delta_rudder'' = Some dr"
    "TAS (self\<lparr>Ct := 0.031 * delta_t\<rparr>) \<noteq> 0"
    by auto
  from aero_success [OF this, of S]
  show "\<exists>L D Y l m n self2.
              calculate_aero_forces_moments S (self\<lparr>Ct := 0.031 * delta_t\<rparr>)
                = (Inr (L, D, Y, l, m, n), self2)"
    by blast
qed

text \<open>
  The constructed aircraft (with \<open>ft2m = 0.3048\<close>) at 50 m/s, \<open>q\<^sub>\<infinity> = 1000\<close>, half
  throttle, a gravity force of \<open>(0, 0, 100)\<close> and everything else zero, with the
  bilinear evaluator: \<open>Sw = 16.16512896\<close>, \<open>CL = 0.148\<close>, \<open>CD = 0.03\<close>,
  \<open>CM = 0.0073\<close>, the other coefficients are zero; thrust is \<open>15.5 Sw\<close>.
\<close>

theorem thrust_and_total_force_witness:
  "(let self = (Cessna172 0.3048)\<lparr> TAS := 50, q_inf := 1000, gravity_force := (0, 0, 100),
        controls := (controls (Cessna172 0.3048))(''delta_t'' \<mapsto> 0.5) \<rparr>
    in controls self ''delta_t'' = Some 0.5
     \<and> TAS self \<noteq> 0 \<and> controls self ''delta_elevator'' \<noteq> None
     \<and> controls self ''delta_aileron'' \<noteq> None \<and> controls self ''delta_rudder'' \<noteq> None
     \<and> fst (calculate_thrust_forces_moments self) = Inr (250.55949888, 0, 0)
     \<and> Ct (snd (calculate_thrust_forces_moments self)) = 0.0155
     \<and> fst (calculate_forces_and_moments bilinear self)
         = Inr ((2020.64112, 0, - 2292.43908608), (0, 176.24348685167616, 0)))"
proof -
  let ?self = "(Cessna172 0.3048)\<lparr> TAS := 50, q_inf := 1000, gravity_force := (0, 0, 100),
        controls := (controls (Cessna172 0.3048))(''delta_t'' \<mapsto> 0.5) \<rparr>"
  have k: "controls ?self ''delta_t'' = Some 0.5" by simp
  have c: "TAS ?self \<noteq> 0" "controls ?self ''delta_elevator'' = Some 0"
    "controls ?self ''delta_aileron'' = Some 0" "controls ?self ''delta_rudder'' = Some 0"
    by (simp_all add: Cessna172_def)
  have n: "np_interp 0 alpha_data CL_data = 0.148"
    "np_interp 0 delta_elev_data CL_delta_elev_data = 0"
    "np_interp 0 alpha_data CD_data = 0.03"
    "np_interp 0 alpha_data CM_data = 0.0075"
    "np_interp 0 delta_elev_data CM_delta_elev_data = - 0.0002"
    "np_interp 0 delta_aile_data Cl_delta_aile_data = 0"
    by (simp_all add: np_interp_def alpha_data_def delta_elev_data_def delta_aile_data_def
        CL_data_def CL_delta_elev_data_def CD_data_def CM_data_def CM_delta_elev_data_def
        Cl_delta_aile_data_def)
  have "interpolates bilinear delta_elev_data alpha_data CD_delta_elev_data"
    "interpolates bilinear delta_aile_data alpha_data CN_delta_aile_data"
    by (rule bilinear_interpolates; simp add: grids_increasing table_lengths grid_lengths)+
  then have "bilinear delta_elev_data alpha_data CD_delta_elev_data
      (delta_elev_data ! 4) (alpha_data ! 3) = CD_delta_elev_data ! 4 ! 3"
    "bilinear delta_aile_data alpha_data CN_delta_aile_data
      (delta_aile_data ! 4) (alpha_data ! 3) = CN_delta_aile_data ! 4 ! 3"
    by (simp_all add: interpolates_def grid_lengths)
  then have b: "bilinear delta_elev_data alpha_data CD_delta_elev_data 0 0 = 0"
    "bilinear delta_aile_data alpha_data CN_delta_aile_data 0 0 = 0"
    by (simp_all add: delta_elev_data_def delta_aile_data_def alpha_data_def
        CD_delta_elev_data_def CN_delta_aile_data_def)
  note t = thrust_and_total_force [OF k, of bilinear]
  from t have t1: "calculate_thrust_forces_moments ?self =
      (Inr (q_inf ?self * Sw ?self * (0.031 * 0.5), 0, 0), ?self\<lparr>Ct := 0.031 * 0.5\<rparr>)"
    by blast
  from t c obtain L D Y l m n self2 where
    a: "calculate_aero_forces_moments bilinear (?self\<lparr>Ct := 0.031 * 0.5\<rparr>)
          = (Inr (L, D, Y, l, m, n), self2)"
    by blast
  with t have r: "fst (calculate_forces_and_moments bilinear ?self) =
      Inr (vadd (vadd (smul 10 (q_inf ?self * Sw ?self * (0.031 * 0.5), 0, 0))
                      (gravity_force ?self)) (- D, Y, - L), (l, m, n))"
    by simp
  from c have "calculate_aero_forces_moments bilinear (?self\<lparr>Ct := 0.031 * 0.5\<rparr>)
      = (Inr (2392.43908608, 484.9538688, 0, 0, 176.24348685167616, 0),
         ?self\<lparr>Ct := 0.031 * 0.5, CL := 0.148, CD := 0.03, CM := Some 0.0073,
                CY := 0, Cl := 0, CN := Some 0\<rparr>)"
    by (simp add: calculate_aero_forces_moments_def
        calculate_aero_lon_forces_moments_coeffs_def
        calculate_aero_lat_forces_moments_coeffs_def Let_def Cessna172_def
        power2_eq_square n b rad2deg_0)
  with a have "L = 2392.43908608" "D = 484.9538688" "Y = 0" "l = 0"
    "m = 176.24348685167616" "n = 0"
    by simp_all
  with r t1 k c show ?thesis
    unfolding Let_def by (simp add: Cessna172_def power2_eq_square)
qed

subsection \<open>The zero state\<close>

text \<open>
  C1 (as amended). In the zero state (angle of attack, its rate, the pitch rate and the
  elevator deflection zero) with a positive airspeed, and an evaluator that interpolates
  the elevator drag table, the longitudinal routine succeeds and yields \<open>CL = 0.148\<close>,
  \<open>CD = 0.03\<close> and \<open>CM = 0.0073\<close>: the pitching moment is the table value \<open>0.0075\<close>
  at 0 degrees plus the elevator increment \<open>-0.0002\<close> tabulated at 0 degrees of
  elevator. The value \<open>-0.0248\<close> is the table entry at 2.5 degrees.
\<close>

theorem zero_state_coefficients:
  assumes "0 < TAS self"
    and "alpha self = 0" and "alpha_dot self = 0" and "q self = 0"
    and "controls self ''delta_elevator'' = Some 0"
    and "interpolates S delta_elev_data alpha_data CD_delta_elev_data"
  shows "\<exists>self'. calculate_aero_lon_forces_moments_coeffs S self = (Inr (), self')
       \<and> CL self' = 0.148 \<and> CD self' = 0.03 \<and> CM self' = Some 0.0073"
proof -
  have n: "np_interp 0 alpha_data CL_data = 0.148"
    "np_interp 0 delta_elev_data CL_delta_elev_data = 0"
    "np_interp 0 alpha_data CD_data = 0.03"
    "np_interp 0 alpha_data CM_data = 0.0075"
    "np_interp 0 delta_elev_data CM_delta_elev_data = - 0.0002"
    by (simp_all add: np_interp_def alpha_data_def delta_elev_data_def
        CL_data_def CL_delta_elev_data_def CD_data_def CM_data_def CM_delta_elev_data_def)
  from assms(6) have "S delta_elev_data alpha_data CD_delta_elev_data
      (delta_elev_data ! 4) (alpha_data ! 3) = CD_delta_elev_data ! 4 ! 3"
    by (simp add: interpolates_def grid_lengths)
  then have b: "S delta_elev_data alpha_data CD_delta_elev_data 0 0 = 0"
    by (simp add: delta_elev_data_def alpha_data_def CD_delta_elev_data_def)
  from assms(1-5) show ?thesis
    by (simp add: calculate_aero_lon_forces_moments_coeffs_def Let_def rad2deg_0 n b)
qed

theorem zero_state_coefficients_witness:
  "(let self = (Cessna172 0.3048)\<lparr>TAS := 50\<rparr>
    in 0 < TAS self \<and> alpha self = 0 \<and> alpha_dot self = 0 \<and> q self = 0
     \<and> controls self ''delta_elevator'' = Some 0
     \<and> interpolates bilinear delta_elev_data alpha_data CD_delta_elev_data
     \<and> fst (calculate_aero_lon_forces_moments_coeffs bilinear self) = Inr ()
     \<and> CL (snd (calculate_aero_lon_forces_moments_coeffs bilinear self)) = 0.148
     \<and> CD (snd (calculate_aero_lon_forces_moments_coeffs bilinear self)) = 0.03
     \<and> CM (snd (calculate_aero_lon_forces_moments_coeffs bilinear self)) = Some 0.0073)"
proof -
  let ?self = "(Cessna172 0.3048)\<lparr>TAS := 50\<rparr>"
  have h: "0 < TAS ?self" "alpha ?self = 0" "alpha_dot ?self = 0" "q ?self = 0"
    "controls ?self ''delta_elevator'' = Some 0"
    by (simp_all add: Cessna172_def)
  have i: "interpolates bilinear delta_elev_data alpha_data CD_delta_elev_data"
    by (rule bilinear_interpolates) (simp_all add: grids_increasing table_lengths grid_lengths)
  from zero_state_coefficients [OF h i] h i show ?thesis
    unfolding Let_def by auto
qed

text \<open>
  The claim as stated fails: whatever the evaluator and the positive airspeed, the
  constructed aircraft does not get \<open>CM = -0.0248\<close>.
\<close>

theorem zero_state_CM_counterexample:
  "\<not> (\<exists>S V. 0 < V \<and>
        CM (snd (calculate_aero_lon_forces_moments_coeffs S ((Cessna172 0.3048)\<lparr>TAS := V\<rparr>)))
          = Some (- 0.0248))"
proof -
  have n: "np_interp 0 alpha_data CM_data = 0.0075"
    "np_interp 0 delta_elev_data CM_delta_elev_data = - 0.0002"
    by (simp_all add: np_interp_def alpha_data_def delta_elev_data_def
        CM_data_def CM_delta_elev_data_def)
  show ?thesis
    by (auto simp add: calculate_aero_lon_forces_moments_coeffs_def Let_def Cessna172_def
        rad2deg_0 n)
qed

subsection \<open>Airspeed\<close>

lemma lat_zero_division:
  assumes "controls self ''delta_aileron'' = Some da" and "controls self ''delta_rudder'' = Some dr"
    and "TAS self = 0"
  shows "calculate_aero_lat_forces_moments_coeffs S self = (Inl ZeroDivisionError, self)"
  using assms by (simp add: calculate_aero_lat_forces_moments_coeffs_def Let_def)

lemma aero_zero_division:
  assumes "controls self ''delta_elevator'' = Some de" and "TAS self = 0"
  shows "calculate_aero_forces_moments S self = (Inl ZeroDivisionError, self)"
  using lon_zero_division [OF assms, of S]
  by (simp add: calculate_aero_forces_moments_def Let_def)

text \<open>
  C2 (as amended). The class has no \<open>InvalidState\<close> condition, and no routine compares
  the airspeed with zero. With the throttle and the three deflections set,
  \<open>calculate_forces_and_moments\<close> raises \<open>ZeroDivisionError\<close> (from \<open>c / (2 * V)\<close>, on
  Python numbers) when the airspeed is zero, and returns the two vectors for every other
  airspeed, a negative one included.
\<close>

theorem airspeed_zero_division:
  assumes "controls self ''delta_t'' = Some dt"
    and "controls self ''delta_elevator'' = Some de"
    and "controls self ''delta_aileron'' = Some da"
    and "controls self ''delta_rudder'' = Some dr"
  shows "(TAS self = 0 \<longrightarrow> fst (calculate_forces_and_moments S self) = Inl ZeroDivisionError)
       \<and> (TAS self \<noteq> 0 \<longrightarrow> (\<exists>res. fst (calculate_forces_and_moments S self) = Inr res))"
proof (intro conjI impI)
  let ?s1 = "self\<lparr>Ct := 0.031 * dt\<rparr>"
  from assms(1) have t: "calculate_thrust_forces_moments self
      = (Inr (q_inf self * Sw self * (0.031 * dt), 0, 0), ?s1)"
    by (simp add: thrust_cases)
  have k: "controls ?s1 ''delta_elevator'' = Some de" "controls ?s1 ''delta_aileron'' = Some da"
    "controls ?s1 ''delta_rudder'' = Some dr"
    using assms by simp_all
  {
    assume "TAS self = 0"
    then have "TAS ?s1 = 0" by simp
    from aero_zero_division [OF k(1) this, of S] t
    show "fst (calculate_forces_and_moments S self) = Inl ZeroDivisionError"
      by (simp add: calculate_forces_and_moments_def)
  }
  assume "TAS self \<noteq> 0"
  then have "TAS ?s1 \<noteq> 0" by simp
  from aero_success [OF k this, of S] obtain x s2 where
    "calculate_aero_forces_moments S ?s1 = (Inr x, s2)" by blast
  moreover obtain L D Y l m n where "x = (L, D, Y, l, m, n)" by (cases x) auto
  ultimately have "fst (calculate_forces_and_moments S self)
      = Inr (vadd (vadd (smul 10 (q_inf self * Sw self * (0.031 * dt), 0, 0)) (gravity_force s2))
               (- D, Y, - L), (l, m, n))"
    using t by (simp add: calculate_forces_and_moments_def Let_def)
  then show "\<exists>res. fst (calculate_forces_and_moments S self) = Inr res" ..
qed

text \<open>
  The constructed aircraft with the throttle set: at \<open>V = 0\<close>, as the constructor leaves
  it, the evaluation raises \<open>ZeroDivisionError\<close>; at \<open>V = 60\<close> it returns.
\<close>

theorem airspeed_zero_division_witness:
  "(let self = (Cessna172 0.3048)\<lparr>controls := (controls (Cessna172 0.3048))(''delta_t'' \<mapsto> 1)\<rparr>
    in controls self ''delta_t'' = Some 1 \<and> controls self ''delta_elevator'' = Some 0
     \<and> controls self ''delta_aileron'' = Some 0 \<and> controls self ''delta_rudder'' = Some 0
     \<and> TAS self = 0 \<and> TAS (self\<lparr>TAS := 60\<rparr>) \<noteq> 0
     \<and> fst (calculate_forces_and_moments bilinear self) = Inl ZeroDivisionError
     \<and> (\<exists>res. fst (calculate_forces_and_moments bilinear (self\<lparr>TAS := 60\<rparr>)) = Inr res))"
proof -
  let ?self = "(Cessna172 0.3048)\<lparr>controls := (controls (Cessna172 0.3048))(''delta_t'' \<mapsto> 1)\<rparr>"
  have k: "controls ?self ''delta_t'' = Some 1" "controls ?self ''delta_elevator'' = Some 0"
    "controls ?self ''delta_aileron'' = Some 0" "controls ?self ''delta_rudder'' = Some 0"
    by (simp_all add: Cessna172_def)
  have k': "controls (?self\<lparr>TAS := 60\<rparr>) ''delta_t'' = Some 1"
    "controls (?self\<lparr>TAS := 60\<rparr>) ''delta_elevator'' = Some 0"
    "controls (?self\<lparr>TAS := 60\<rparr>) ''delta_aileron'' = Some 0"
    "controls (?self\<lparr>TAS := 60\<rparr>) ''delta_rudder'' = Some 0"
    by (simp_all add: Cessna172_def)
  have v: "TAS ?self = 0" "TAS (?self\<lparr>TAS := 60\<rparr>) \<noteq> 0"
    by (simp_all add: Cessna172_def)
  from airspeed_zero_division [OF k, of bilinear] v(1)
  have "fst (calculate_forces_and_moments bilinear ?self) = Inl ZeroDivisionError" by blast
  moreover from airspeed_zero_division [OF k', of bilinear] v(2)
  have "\<exists>res. fst (calculate_forces_and_moments bilinear (?self\<lparr>TAS := 60\<rparr>)) = Inr res"
    by blast
  ultimately show ?thesis
    unfolding Let_def using k v by blast
qed

text \<open>
  The claim as stated fails: at \<open>V = -1\<close> the evaluation does not fail, whatever the
  evaluator.
\<close>

theorem negative_airspeed_counterexample:
  "\<not> (\<exists>S. isl (fst (calculate_forces_and_moments S
        ((Cessna172 0.3048)\<lparr>TAS := - 1,
            controls := (controls (Cessna172 0.3048))(''delta_t'' \<mapsto> 1)\<rparr>))))"
proof -
  let ?self = "(Cessna172 0.3048)\<lparr>TAS := - 1,
            controls := (controls (Cessna172 0.3048))(''delta_t'' \<mapsto> 1)\<rparr>"
  have k: "controls ?self ''delta_t'' = Some 1" "controls ?self ''delta_elevator'' = Some 0"
    "controls ?self ''delta_aileron'' = Some 0" "controls ?self ''delta_rudder'' = Some 0"
    by (simp_all add: Cessna172_def)
  have t: "calculate_thrust_forces_moments ?self
      = (Inr (q_inf ?self * Sw ?self * (0.031 * 1), 0, 0), ?self\<lparr>Ct := 0.031 * 1\<rparr>)"
    using k(1) by (simp add: thrust_cases)
  have "\<not> isl (fst (calculate_forces_and_moments S ?self))" for S
  proof -
    have "controls (?self\<lparr>Ct := 0.031 * 1\<rparr>) ''delta_elevator'' = Some 0"
      "controls (?self\<lparr>Ct := 0.031 * 1\<rparr>) ''delta_aileron'' = Some 0"
      "controls (?self\<lparr>Ct := 0.031 * 1\<rparr>) ''delta_rudder'' = Some 0"
      "TAS (?self\<lparr>Ct := 0.031 * 1\<rparr>) \<noteq> 0"
      by (simp_all add: Cessna172_def)
    from aero_success [OF this, of S] obtain x s2 where
      "calculate_aero_forces_moments S (?self\<lparr>Ct := 0.031 * 1\<rparr>) = (Inr x, s2)" by blast
    moreover obtain L D Y l m n where "x = (L, D, Y, l, m, n)" by (cases x) auto
    ultimately have "fst (calculate_forces_and_moments S ?self)
        = Inr (vadd (vadd (smul 10 (q_inf ?self * Sw ?self * (0.031 * 1), 0, 0))
                 (gravity_force s2)) (- D, Y, - L), (l, m, n))"
      using t by (simp add: calculate_forces_and_moments_def Let_def)
    then show ?thesis by simp
  qed
  then show ?thesis by blast
qed

subsection \<open>Dynamic pressure\<close>

lemma lon_q_inf:
  "calculate_aero_lon_forces_moments_coeffs S (self\<lparr>q_inf := x\<rparr>) =
   map_prod id (\<lambda>s. s\<lparr>q_inf := x\<rparr>) (calculate_aero_lon_forces_moments_coeffs S self)"
  by (simp add: calculate_aero_lon_forces_moments_coeffs_def Let_def split: option.splits)

lemma lat_q_inf:
  "calculate_aero_lat_forces_moments_coeffs S (self\<lparr>q_inf := x\<rparr>) =
   map_prod id (\<lambda>s. s\<lparr>q_inf := x\<rparr>) (calculate_aero_lat_forces_moments_coeffs S self)"
  by (simp add: calculate_aero_lat_forces_moments_coeffs_def Let_def split: option.splits)

lemma aero_q_inf:
  assumes "calculate_aero_forces_moments S self = (Inr (L, D, Y, l, m, n), self')"
  shows "calculate_aero_forces_moments S (self\<lparr>q_inf := k * q_inf self\<rparr>) =
    (Inr (k * L, k * D, k * Y, k * l, k * m, k * n), self'\<lparr>q_inf := k * q_inf self\<rparr>)"
proof -
  obtain r1 s1 where lon: "calculate_aero_lon_forces_moments_coeffs S self = (r1, s1)"
    by force
  obtain r2 s2 where lat: "calculate_aero_lat_forces_moments_coeffs S s1 = (r2, s2)"
    by force
  from assms lon lat show ?thesis
    by (auto simp add: calculate_aero_forces_moments_def Let_def lon_q_inf lat_q_inf
        split: sum.splits option.splits)
qed

lemma aero_gravity_force:
  "gravity_force (snd (calculate_aero_forces_moments S self)) = gravity_force self"
proof -
  from aero_frame [of S self] obtain cl cd cm cy cl' cn where
    "snd (calculate_aero_forces_moments S self)
      = self\<lparr>CL := cl, CD := cd, CM := cm, CY := cy, Cl := cl', CN := cn\<rparr>" by blast
  then show ?thesis by simp
qed

lemma forces_and_moments_Inr:
  assumes "calculate_forces_and_moments S self = (Inr (F, M), self')"
  shows "\<exists>dt L D Y l m n s2.
      controls self ''delta_t'' = Some dt
    \<and> calculate_aero_forces_moments S (self\<lparr>Ct := 0.031 * dt\<rparr>) = (Inr (L, D, Y, l, m, n), s2)
    \<and> F = vadd (vadd (smul 10 (q_inf self * Sw self * (0.031 * dt), 0, 0)) (gravity_force self))
             (- D, Y, - L)
    \<and> M = (l, m, n)
    \<and> self' = s2\<lparr>total_forces := F, total_moments := M\<rparr>"
proof (cases "controls self ''delta_t''")
  case None
  with assms show ?thesis
    by (simp add: calculate_forces_and_moments_def thrust_cases)
next
  case (Some dt)
  obtain r2 s2 where a: "calculate_aero_forces_moments S (self\<lparr>Ct := 0.031 * dt\<rparr>) = (r2, s2)"
    by force
  from aero_gravity_force [of S "self\<lparr>Ct := 0.031 * dt\<rparr>"] a
  have g: "gravity_force s2 = gravity_force self" by simp
  show ?thesis
  proof (cases r2)
    case (Inl e)
    with assms Some a show ?thesis
      by (simp add: calculate_forces_and_moments_def thrust_cases)
  next
    case (Inr x)
    obtain L D Y l m n where x: "x = (L, D, Y, l, m, n)" by (cases x) auto
    from assms Some a Inr x g
    have "F = vadd (vadd (smul 10 (q_inf self * Sw self * (0.031 * dt), 0, 0)) (gravity_force self))
             (- D, Y, - L)" "M = (l, m, n)"
      "self' = s2\<lparr>total_forces := F, total_moments := M\<rparr>"
      by (auto simp add: calculate_forces_and_moments_def thrust_cases Let_def)
    with Some a Inr x show ?thesis by blast
  qed
qed

lemma forces_and_moments_q_inf:
  assumes "calculate_forces_and_moments S self = (Inr (F, M), self')"
  shows "fst (calculate_forces_and_moments S (self\<lparr>q_inf := k * q_inf self\<rparr>))
    = Inr (vadd (smul k F) (smul (1 - k) (gravity_force self)), smul k M)"
proof -
  from forces_and_moments_Inr [OF assms] obtain dt L D Y l m n s2 where
    dt: "controls self ''delta_t'' = Some dt"
    and a: "calculate_aero_forces_moments S (self\<lparr>Ct := 0.031 * dt\<rparr>)
              = (Inr (L, D, Y, l, m, n), s2)"
    and F: "F = vadd (vadd (smul 10 (q_inf self * Sw self * (0.031 * dt), 0, 0))
                 (gravity_force self)) (- D, Y, - L)"
    and M: "M = (l, m, n)"
    by blast
  let ?s1 = "self\<lparr>Ct := 0.031 * dt\<rparr>"
  have e: "self\<lparr>q_inf := k * q_inf self, Ct := 0.031 * dt\<rparr> = ?s1\<lparr>q_inf := k * q_inf ?s1\<rparr>"
    by simp
  from aero_q_inf [OF a, of k]
  have a': "calculate_aero_forces_moments S (self\<lparr>q_inf := k * q_inf self, Ct := 0.031 * dt\<rparr>)
     = (Inr (k * L, k * D, k * Y, k * l, k * m, k * n), s2\<lparr>q_inf := k * q_inf ?s1\<rparr>)"
    unfolding e .
  from aero_gravity_force [of S ?s1] a have g: "gravity_force s2 = gravity_force self" by simp
  obtain g1 g2 g3 where g3: "gravity_force self = (g1, g2, g3)" by (cases "gravity_force self") auto
  from dt a' g g3 show ?thesis
    by (simp add: calculate_forces_and_moments_def thrust_cases Let_def F M algebra_simps)
qed

subsection \<open>A sample evaluation\<close>

lemma bilinear_at_origin:
  "bilinear delta_elev_data alpha_data CD_delta_elev_data 0 0 = 0"
  "bilinear delta_aile_data alpha_data CN_delta_aile_data 0 0 = 0"
proof -
  have "interpolates bilinear delta_elev_data alpha_data CD_delta_elev_data"
    "interpolates bilinear delta_aile_data alpha_data CN_delta_aile_data"
    by (rule bilinear_interpolates; simp add: grids_increasing table_lengths grid_lengths)+
  then have "bilinear delta_elev_data alpha_data CD_delta_elev_data
      (delta_elev_data ! 4) (alpha_data ! 3) = CD_delta_elev_data ! 4 ! 3"
    "bilinear delta_aile_data alpha_data CN_delta_aile_data
      (delta_aile_data ! 4) (alpha_data ! 3) = CN_delta_aile_data ! 4 ! 3"
    by (simp_all add: interpolates_def grid_lengths)
  then show "bilinear delta_elev_data alpha_data CD_delta_elev_data 0 0 = 0"
    "bilinear delta_aile_data alpha_data CN_delta_aile_data 0 0 = 0"
    by (simp_all add: delta_elev_data_def delta_aile_data_def alpha_data_def
        CD_delta_elev_data_def CN_delta_aile_data_def)
qed

lemma lookups_at_origin:
  "np_interp 0 alpha_data CL_data = 0.148"
  "np_interp 0 delta_elev_data CL_delta_elev_data = 0"
  "np_interp 0 alpha_data CD_data = 0.03"
  "np_interp 0 alpha_data CM_data = 0.0075"
  "np_interp 0 delta_elev_data CM_delta_elev_data = - 0.0002"
  "np_interp 0 delta_aile_data Cl_delta_aile_data = 0"
  by (simp_all add: np_interp_def alpha_data_def delta_elev_data_def delta_aile_data_def
      CL_data_def CL_delta_elev_data_def CD_data_def CM_data_def CM_delta_elev_data_def
      Cl_delta_aile_data_def)

text \<open>
  The constructed aircraft (with \<open>ft2m = 0.3048\<close>) at 50 m/s, half throttle, a gravity
  force of \<open>(0, 0, g)\<close> and everything else zero, at dynamic pressure \<open>1000 k\<close>, with the
  bilinear evaluator.
\<close>

lemma sample_forces_and_moments:
  "fst (calculate_forces_and_moments bilinear
      ((Cessna172 0.3048)\<lparr> TAS := 50, q_inf := 1000 * k, gravity_force := (0, 0, g),
          controls := (controls (Cessna172 0.3048))(''delta_t'' \<mapsto> 0.5) \<rparr>))
   = Inr ((2020.64112 * k, 0, g - 2392.43908608 * k), (0, 176.24348685167616 * k, 0))"
  by (simp add: calculate_forces_and_moments_def calculate_thrust_forces_moments_def
      calculate_aero_forces_moments_def calculate_aero_lon_forces_moments_coeffs_def
      calculate_aero_lat_forces_moments_coeffs_def Let_def Cessna172_def power2_eq_square
      lookups_at_origin bilinear_at_origin rad2deg_0)

subsection \<open>Doubling the dynamic pressure\<close>

text \<open>
  C5 (as amended). The coefficients do not depend on the dynamic pressure. Doubling it
  doubles the six aerodynamic forces and moments \<open>L, D, Y, l, m, n\<close>, the thrust force
  and the total moment. The total force is \<open>10 \<cdot> thrust + gravity_force + (-D, Y, -L)\<close>,
  and the gravity force stays as the caller set it: the total force goes from \<open>F\<close> to
  \<open>2 F - gravity_force\<close>, which is \<open>2 F\<close> exactly when the gravity force is zero.
\<close>

theorem doubling_dynamic_pressure:
  "(\<forall>L D Y l m n self'.
      calculate_aero_forces_moments S self = (Inr (L, D, Y, l, m, n), self')
      \<longrightarrow> fst (calculate_aero_forces_moments S (self\<lparr>q_inf := 2 * q_inf self\<rparr>))
            = Inr (2 * L, 2 * D, 2 * Y, 2 * l, 2 * m, 2 * n))
   \<and> (\<forall>Ft self'.
      calculate_thrust_forces_moments self = (Inr Ft, self')
      \<longrightarrow> fst (calculate_thrust_forces_moments (self\<lparr>q_inf := 2 * q_inf self\<rparr>))
            = Inr (smul 2 Ft))
   \<and> (\<forall>F M self'.
      calculate_forces_and_moments S self = (Inr (F, M), self')
      \<longrightarrow> fst (calculate_forces_and_moments S (self\<lparr>q_inf := 2 * q_inf self\<rparr>))
            = Inr (vadd (smul 2 F) (smul (- 1) (gravity_force self)), smul 2 M)
        \<and> (fst (calculate_forces_and_moments S (self\<lparr>q_inf := 2 * q_inf self\<rparr>))
              = Inr (smul 2 F, smul 2 M)
            \<longleftrightarrow> gravity_force self = (0, 0, 0)))"
proof (intro conjI allI impI)
  fix L D Y l m n self'
  assume "calculate_aero_forces_moments S self = (Inr (L, D, Y, l, m, n), self')"
  from aero_q_inf [OF this, of 2]
  show "fst (calculate_aero_forces_moments S (self\<lparr>q_inf := 2 * q_inf self\<rparr>))
            = Inr (2 * L, 2 * D, 2 * Y, 2 * l, 2 * m, 2 * n)"
    by simp
next
  fix Ft self'
  assume "calculate_thrust_forces_moments self = (Inr Ft, self')"
  then show "fst (calculate_thrust_forces_moments (self\<lparr>q_inf := 2 * q_inf self\<rparr>))
            = Inr (smul 2 Ft)"
    by (auto simp add: thrust_cases split: option.splits)
next
  fix F M self'
  assume c: "calculate_forces_and_moments S self = (Inr (F, M), self')"
  from forces_and_moments_q_inf [OF c, of 2]
  show d: "fst (calculate_forces_and_moments S (self\<lparr>q_inf := 2 * q_inf self\<rparr>))
            = Inr (vadd (smul 2 F) (smul (- 1) (gravity_force self)), smul 2 M)"
    by simp
  obtain F1 F2 F3 where F: "F = (F1, F2, F3)" by (cases F) auto
  obtain g1 g2 g3 where g: "gravity_force self = (g1, g2, g3)"
    by (cases "gravity_force self") auto
  show "fst (calculate_forces_and_moments S (self\<lparr>q_inf := 2 * q_inf self\<rparr>))
              = Inr (smul 2 F, smul 2 M)
            \<longleftrightarrow> gravity_force self = (0, 0, 0)"
    unfolding d by (simp add: F g)
qed

theorem doubling_dynamic_pressure_witness:
  "(let self = (Cessna172 0.3048)\<lparr> TAS := 50, q_inf := 1000, gravity_force := (0, 0, 100),
          controls := (controls (Cessna172 0.3048))(''delta_t'' \<mapsto> 0.5) \<rparr>
    in fst (calculate_forces_and_moments bilinear self)
         = Inr ((2020.64112, 0, - 2292.43908608), (0, 176.24348685167616, 0))
     \<and> fst (calculate_forces_and_moments bilinear (self\<lparr>q_inf := 2 * q_inf self\<rparr>))
         = Inr ((4041.28224, 0, - 4684.87817216), (0, 352.48697370335232, 0)))"
proof -
  let ?self = "(Cessna172 0.3048)\<lparr> TAS := 50, q_inf := 1000, gravity_force := (0, 0, 100),
          controls := (controls (Cessna172 0.3048))(''delta_t'' \<mapsto> 0.5) \<rparr>"
  obtain self' where c: "calculate_forces_and_moments bilinear ?self
      = (Inr ((2020.64112, 0, - 2292.43908608), (0, 176.24348685167616, 0)), self')"
    using sample_forces_and_moments [where k = 1 and g = 100]
    by (cases "calculate_forces_and_moments bilinear ?self") simp
  from doubling_dynamic_pressure [of bilinear ?self] c
  have "fst (calculate_forces_and_moments bilinear (?self\<lparr>q_inf := 2 * q_inf ?self\<rparr>))
      = Inr (vadd (smul 2 (2020.64112, 0, - 2292.43908608))
               (smul (- 1) (gravity_force ?self)), smul 2 (0, 176.24348685167616, 0))"
    by blast
  with c show ?thesis
    unfolding Let_def by simp
qed

text \<open>
  The claim as stated fails for the total force: with a gravity force of \<open>(0, 0, 100)\<close>
  the total force at twice the dynamic pressure is not twice the total force, whatever
  the evaluator.
\<close>

theorem doubling_total_force_counterexample:
  "\<not> (\<exists>S F M.
        fst (calculate_forces_and_moments S
          ((Cessna172 0.3048)\<lparr> TAS := 50, q_inf := 1000, gravity_force := (0, 0, 100),
              controls := (controls (Cessna172 0.3048))(''delta_t'' \<mapsto> 0.5) \<rparr>))
          = Inr (F, M)
      \<and> fst (calculate_forces_and_moments S
          ((Cessna172 0.3048)\<lparr> TAS := 50, q_inf := 2 * 1000, gravity_force := (0, 0, 100),
              controls := (controls (Cessna172 0.3048))(''delta_t'' \<mapsto> 0.5) \<rparr>))
          = Inr (smul 2 F, smul 2 M))"
proof
  let ?self = "(Cessna172 0.3048)\<lparr> TAS := 50, q_inf := 1000, gravity_force := (0, 0, 100),
              controls := (controls (Cessna172 0.3048))(''delta_t'' \<mapsto> 0.5) \<rparr>"
  assume "\<exists>S F M.
        fst (calculate_forces_and_moments S ?self) = Inr (F, M)
      \<and> fst (calculate_forces_and_moments S
          ((Cessna172 0.3048)\<lparr> TAS := 50, q_inf := 2 * 1000, gravity_force := (0, 0, 100),
              controls := (controls (Cessna172 0.3048))(''delta_t'' \<mapsto> 0.5) \<rparr>))
          = Inr (smul 2 F, smul 2 M)"
  then obtain S F M where
    1: "fst (calculate_forces_and_moments S ?self) = Inr (F, M)"
    and 2: "fst (calculate_forces_and_moments S
          ((Cessna172 0.3048)\<lparr> TAS := 50, q_inf := 2 * 1000, gravity_force := (0, 0, 100),
              controls := (controls (Cessna172 0.3048))(''delta_t'' \<mapsto> 0.5) \<rparr>))
          = Inr (smul 2 F, smul 2 M)"
    by blast
  from 1 obtain self' where c: "calculate_forces_and_moments S ?self = (Inr (F, M), self')"
    by (cases "calculate_forces_and_moments S ?self") simp
  have e: "?self\<lparr>q_inf := 2 * q_inf ?self\<rparr>
      = (Cessna172 0.3048)\<lparr> TAS := 50, q_inf := 2 * 1000, gravity_force := (0, 0, 100),
              controls := (controls (Cessna172 0.3048))(''delta_t'' \<mapsto> 0.5) \<rparr>"
    by simp
  obtain F1 F2 F3 where F: "F = (F1, F2, F3)" by (cases F) auto
  from forces_and_moments_q_inf [OF c, of 2] 2 show False
    unfolding e by (simp add: F)
qed

subsection \<open>The attributes \<open>Cm\<close> and \<open>Cn\<close>\<close>

lemma after_call_frame:
  "\<exists>ct cl cd cm cy cl' cn tf tm. after_call S c self
      = self\<lparr>Ct := ct, CL := cl, CD := cd, CM := cm, CY := cy, Cl := cl', CN := cn,
              total_forces := tf, total_moments := tm\<rparr>"
proof (cases c)
  case Lon_coeffs
  from lon_frame [of S self] obtain cl cd cm where
    "snd (calculate_aero_lon_forces_moments_coeffs S self) = self\<lparr>CL := cl, CD := cd, CM := cm\<rparr>"
    by blast
  with Lon_coeffs have "after_call S c self
      = self\<lparr>Ct := Ct self, CL := cl, CD := cd, CM := cm, CY := CY self, Cl := Cl self,
              CN := CN self, total_forces := total_forces self,
              total_moments := total_moments self\<rparr>" by simp
  then show ?thesis by blast
next
  case Lat_coeffs
  from lat_frame [of S self] obtain cy cl' cn where
    "snd (calculate_aero_lat_forces_moments_coeffs S self) = self\<lparr>CY := cy, Cl := cl', CN := cn\<rparr>"
    by blast
  with Lat_coeffs have "after_call S c self
      = self\<lparr>Ct := Ct self, CL := CL self, CD := CD self, CM := CM self, CY := cy, Cl := cl',
              CN := cn, total_forces := total_forces self,
              total_moments := total_moments self\<rparr>" by simp
  then show ?thesis by blast
next
  case Aero_forces
  from aero_frame [of S self] obtain cl cd cm cy cl' cn where
    "snd (calculate_aero_forces_moments S self)
      = self\<lparr>CL := cl, CD := cd, CM := cm, CY := cy, Cl := cl', CN := cn\<rparr>"
    by blast
  with Aero_forces have "after_call S c self
      = self\<lparr>Ct := Ct self, CL := cl, CD := cd, CM := cm, CY := cy, Cl := cl',
              CN := cn, total_forces := total_forces self,
              total_moments := total_moments self\<rparr>" by simp
  then show ?thesis by blast
next
  case Thrust_forces
  from thrust_frame [of self] obtain ct where
    "snd (calculate_thrust_forces_moments self) = self\<lparr>Ct := ct\<rparr>"
    by blast
  with Thrust_forces have "after_call S c self
      = self\<lparr>Ct := ct, CL := CL self, CD := CD self, CM := CM self, CY := CY self,
              Cl := Cl self, CN := CN self, total_forces := total_forces self,
              total_moments := total_moments self\<rparr>" by simp
  then show ?thesis by blast
next
  case Forces_and_moments
  with forces_and_moments_frame [of S self] show ?thesis by simp
qed

lemma after_call_Cm_Cn:
  "Cm (after_call S c self) = Cm self \<and> Cn (after_call S c self) = Cn self"
proof -
  from after_call_frame [of S c self] obtain ct cl cd cm cy cl' cn tf tm where
    "after_call S c self
      = self\<lparr>Ct := ct, CL := cl, CD := cd, CM := cm, CY := cy, Cl := cl', CN := cn,
              total_forces := tf, total_moments := tm\<rparr>" by blast
  then show ?thesis by simp
qed

lemma evaluations_Cm_Cn:
  assumes "\<forall>(set_state, c) \<in> set steps. \<forall>s. Cm (set_state s) = Cm s \<and> Cn (set_state s) = Cn s"
  shows "Cm (evaluations S steps self) = Cm self \<and> Cn (evaluations S steps self) = Cn self"
  using assms
proof (induction steps arbitrary: self)
  case Nil
  then show ?case by simp
next
  case (Cons step steps)
  obtain u c where step: "step = (u, c)" by (cases step)
  from Cons.prems step have u: "Cm (u self) = Cm self" "Cn (u self) = Cn self" by auto
  from Cons.prems have "\<forall>(set_state, c) \<in> set steps.
      \<forall>s. Cm (set_state s) = Cm s \<and> Cn (set_state s) = Cn s" by simp
  from Cons.IH [OF this, of "after_call S c (u self)"] u step
  show ?case by (simp add: after_call_Cm_Cn)
qed

lemma lon_other_outputs:
  "calculate_aero_lon_forces_moments_coeffs S (self\<lparr>Ct := ct\<rparr>) =
   map_prod id (\<lambda>s. s\<lparr>Ct := ct\<rparr>) (calculate_aero_lon_forces_moments_coeffs S self)"
  by (simp add: calculate_aero_lon_forces_moments_coeffs_def Let_def split: option.splits)

lemma lat_other_outputs:
  "calculate_aero_lat_forces_moments_coeffs S (self\<lparr>Ct := ct, CL := cl, CD := cd, CM := cm\<rparr>) =
   map_prod id (\<lambda>s. s\<lparr>Ct := ct, CL := cl, CD := cd, CM := cm\<rparr>)
     (calculate_aero_lat_forces_moments_coeffs S self)"
  by (simp add: calculate_aero_lat_forces_moments_coeffs_def Let_def split: option.splits)

lemma aero_Inr:
  assumes "calculate_aero_forces_moments S self = (Inr x, self')"
  shows "\<exists>s1 cm cn. calculate_aero_lon_forces_moments_coeffs S self = (Inr (), s1)
      \<and> calculate_aero_lat_forces_moments_coeffs S s1 = (Inr (), self')
      \<and> CM self' = Some cm \<and> CN self' = Some cn"
proof -
  obtain r1 s1 where lon: "calculate_aero_lon_forces_moments_coeffs S self = (r1, s1)"
    by force
  obtain r2 s2 where lat: "calculate_aero_lat_forces_moments_coeffs S s1 = (r2, s2)"
    by force
  from assms lon lat show ?thesis
    by (auto simp add: calculate_aero_forces_moments_def Let_def
        split: sum.splits option.splits)
qed

text \<open>
  C10. The constructor sets \<open>Cm\<close> and \<open>Cn\<close> to 0, and no routine assigns them: each
  of the five routines, whether it returns or raises, leaves both as they were, so after
  any run of caller updates (that do not write them) and calls they are still 0. The
  pitching and yawing moment coefficients go to the attributes \<open>CM\<close> and \<open>CN\<close>: after
  a call of \<open>calculate_forces_and_moments\<close> that returns, \<open>CM\<close> and \<open>CN\<close> exist and
  hold what the longitudinal and the lateral routine compute for the state of that call.
\<close>

theorem Cm_Cn_never_written:
  assumes "\<forall>(set_state, c) \<in> set steps. \<forall>s. Cm (set_state s) = Cm s \<and> Cn (set_state s) = Cn s"
  shows "Cm (evaluations S steps (Cessna172 ft2m)) = 0
    \<and> Cn (evaluations S steps (Cessna172 ft2m)) = 0
    \<and> (\<forall>c self. Cm (after_call S c self) = Cm self \<and> Cn (after_call S c self) = Cn self)
    \<and> (\<forall>self res self'. calculate_forces_and_moments S self = (Inr res, self')
          \<longrightarrow> CM self' \<noteq> None \<and> CN self' \<noteq> None
            \<and> CM self' = CM (snd (calculate_aero_lon_forces_moments_coeffs S self))
            \<and> CN self' = CN (snd (calculate_aero_lat_forces_moments_coeffs S self)))"
proof (intro conjI allI impI)
  from evaluations_Cm_Cn [OF assms, of S "Cessna172 ft2m"]
  show "Cm (evaluations S steps (Cessna172 ft2m)) = 0"
    "Cn (evaluations S steps (Cessna172 ft2m)) = 0"
    by (simp_all add: Cessna172_def)
next
  fix c self
  from after_call_Cm_Cn [of S c self]
  show "Cm (after_call S c self) = Cm self" "Cn (after_call S c self) = Cn self"
    by simp_all
next
  fix self res self'
  assume c: "calculate_forces_and_moments S self = (Inr res, self')"
  obtain F M where "res = (F, M)" by (cases res)
  with forces_and_moments_Inr [of S self F M self'] c obtain dt x s2 where
    a: "calculate_aero_forces_moments S (self\<lparr>Ct := 0.031 * dt\<rparr>) = (Inr x, s2)"
    and s': "self' = s2\<lparr>total_forces := F, total_moments := M\<rparr>"
    by blast
  from aero_Inr [OF a] obtain s1 cm cn where
    lon: "calculate_aero_lon_forces_moments_coeffs S (self\<lparr>Ct := 0.031 * dt\<rparr>) = (Inr (), s1)"
    and lat: "calculate_aero_lat_forces_moments_coeffs S s1 = (Inr (), s2)"
    and cm: "CM s2 = Some cm" and cn: "CN s2 = Some cn"
    by blast
  from cm cn s' show "CM self' \<noteq> None" "CN self' \<noteq> None" by simp_all
  from lon have s1: "s1 = (snd (calculate_aero_lon_forces_moments_coeffs S self))\<lparr>Ct := 0.031 * dt\<rparr>"
    by (cases "calculate_aero_lon_forces_moments_coeffs S self") (simp add: lon_other_outputs)
  from lat_frame [of S s1] lat obtain cy cl' cn' where
    s2: "s2 = s1\<lparr>CY := cy, Cl := cl', CN := cn'\<rparr>" by auto
  from s' s2 s1 show "CM self' = CM (snd (calculate_aero_lon_forces_moments_coeffs S self))"
    by simp
  from lon_frame [of S self] obtain cl cd cm' where
    "snd (calculate_aero_lon_forces_moments_coeffs S self) = self\<lparr>CL := cl, CD := cd, CM := cm'\<rparr>"
    by blast
  with s1 have "s1 = self\<lparr>Ct := 0.031 * dt, CL := cl, CD := cd, CM := cm'\<rparr>" by simp
  with lat have "s2 = (snd (calculate_aero_lat_forces_moments_coeffs S self))
      \<lparr>Ct := 0.031 * dt, CL := cl, CD := cd, CM := cm'\<rparr>"
    by (cases "calculate_aero_lat_forces_moments_coeffs S self") (simp add: lat_other_outputs)
  with s' show "CN self' = CN (snd (calculate_aero_lat_forces_moments_coeffs S self))"
    by simp
qed

text \<open>
  Two evaluations of the constructed aircraft: the caller sets airspeed and throttle and
  asks for forces and moments, then sets the angle of attack and calls the longitudinal
  routine. \<open>Cm\<close> and \<open>Cn\<close> are 0 afterwards; after the first step \<open>CM\<close> is 0.0073.
\<close>

theorem Cm_Cn_never_written_witness:
  "(let steps =
      [(\<lambda>s. s\<lparr>TAS := 50, controls := (controls s)(''delta_t'' \<mapsto> 0.5)\<rparr>, Forces_and_moments),
       (\<lambda>s. s\<lparr>alpha := deg2rad 5\<rparr>, Lon_coeffs)]
    in (\<forall>s. Cm (fst (steps ! 0) s) = Cm s \<and> Cn (fst (steps ! 0) s) = Cn s)
     \<and> (\<forall>s. Cm (fst (steps ! 1) s) = Cm s \<and> Cn (fst (steps ! 1) s) = Cn s)
     \<and> Cm (evaluations bilinear steps (Cessna172 0.3048)) = 0
     \<and> Cn (evaluations bilinear steps (Cessna172 0.3048)) = 0
     \<and> CM (evaluations bilinear (take 1 steps) (Cessna172 0.3048)) = Some 0.0073
     \<and> CN (evaluations bilinear (take 1 steps) (Cessna172 0.3048)) = Some 0)"
proof -
  let ?steps =
     "[(\<lambda>s. s\<lparr>TAS := 50, controls := (controls s)(''delta_t'' \<mapsto> 0.5)\<rparr>, Forces_and_moments),
       (\<lambda>s. s\<lparr>alpha := deg2rad 5\<rparr>, Lon_coeffs)]"
  have h: "\<forall>(set_state, c) \<in> set ?steps. \<forall>s. Cm (set_state s) = Cm s \<and> Cn (set_state s) = Cn s"
    by simp
  have "CM (evaluations bilinear (take 1 ?steps) (Cessna172 0.3048)) = Some 0.0073"
    "CN (evaluations bilinear (take 1 ?steps) (Cessna172 0.3048)) = Some 0"
    by (simp_all add: calculate_forces_and_moments_def calculate_thrust_forces_moments_def
      calculate_aero_forces_moments_def calculate_aero_lon_forces_moments_coeffs_def
      calculate_aero_lat_forces_moments_coeffs_def Let_def Cessna172_def
      lookups_at_origin bilinear_at_origin rad2deg_0)
  with Cm_Cn_never_written [OF h, of bilinear "0.3048"] show ?thesis
    unfolding Let_def by simp
qed

subsection \<open>The aileron yawing moment table\<close>

lemma aileron_rows:
  "\<forall>j < 12. CN_delta_aile_data ! 2 ! j \<noteq> - (CN_delta_aile_data ! 5 ! j)
          \<and> CN_delta_aile_data ! 2 ! j * CN_delta_aile_data ! 5 ! j < 0"
  by (simp add: CN_delta_aile_data_def eval_nat_numeral All_less_Suc)

lemma lat_CN_rates_zero:
  assumes "0 < TAS self" and "beta self = 0" and "p self = 0" and "r self = 0"
    and "controls self ''delta_aileron'' = Some da"
    and "controls self ''delta_rudder'' = Some 0"
  shows "CN (snd (calculate_aero_lat_forces_moments_coeffs S self))
    = Some (S delta_aile_data alpha_data CN_delta_aile_data (rad2deg da) (rad2deg (alpha self)))"
  using assms by (simp add: calculate_aero_lat_forces_moments_coeffs_def Let_def)

text \<open>
  C4 (as amended). With sideslip, rudder deflection and angular rates zero, a positive
  airspeed and an evaluator that interpolates the aileron table, the yawing moment
  coefficient at a tabulated angle of attack is the table entry of the row of -5 degrees
  for an aileron deflection of -5 degrees, and the entry of the row of +5 degrees for
  +5 degrees. At every tabulated angle of attack the two have opposite signs, and
  neither is the negative of the other: the aileron grid
  \<open>[-15, -10, -5, -2.5, 0, 5, 10, 15, 20]\<close> is not symmetric about 0.
\<close>

theorem aileron_yaw_at_five_degrees:
  assumes "interpolates S delta_aile_data alpha_data CN_delta_aile_data"
    and "j < length alpha_data"
    and "0 < TAS self" and "alpha self = deg2rad (alpha_data ! j)"
    and "beta self = 0" and "p self = 0" and "r self = 0"
    and "controls self ''delta_rudder'' = Some 0"
  shows "CN (snd (calculate_aero_lat_forces_moments_coeffs S
               (self\<lparr>controls := (controls self)(''delta_aileron'' \<mapsto> deg2rad (- 5))\<rparr>)))
           = Some (CN_delta_aile_data ! 2 ! j)
       \<and> CN (snd (calculate_aero_lat_forces_moments_coeffs S
               (self\<lparr>controls := (controls self)(''delta_aileron'' \<mapsto> deg2rad 5)\<rparr>)))
           = Some (CN_delta_aile_data ! 5 ! j)
       \<and> CN_delta_aile_data ! 2 ! j \<noteq> - (CN_delta_aile_data ! 5 ! j)
       \<and> CN_delta_aile_data ! 2 ! j * CN_delta_aile_data ! 5 ! j < 0"
proof -
  have g: "delta_aile_data ! 2 = - 5" "delta_aile_data ! 5 = 5"
    by (simp_all add: delta_aile_data_def)
  from assms(1,2) have
    "S delta_aile_data alpha_data CN_delta_aile_data (delta_aile_data ! 2) (alpha_data ! j)
       = CN_delta_aile_data ! 2 ! j"
    "S delta_aile_data alpha_data CN_delta_aile_data (delta_aile_data ! 5) (alpha_data ! j)
       = CN_delta_aile_data ! 5 ! j"
    by (simp_all add: interpolates_def grid_lengths)
  then have s: "S delta_aile_data alpha_data CN_delta_aile_data (- 5) (alpha_data ! j)
       = CN_delta_aile_data ! 2 ! j"
    "S delta_aile_data alpha_data CN_delta_aile_data 5 (alpha_data ! j)
       = CN_delta_aile_data ! 5 ! j"
    by (simp_all only: g)
  let ?m = "self\<lparr>controls := (controls self)(''delta_aileron'' \<mapsto> deg2rad (- 5))\<rparr>"
  let ?p = "self\<lparr>controls := (controls self)(''delta_aileron'' \<mapsto> deg2rad 5)\<rparr>"
  from assms have "0 < TAS ?m" "beta ?m = 0" "p ?m = 0" "r ?m = 0"
    "controls ?m ''delta_aileron'' = Some (deg2rad (- 5))"
    "controls ?m ''delta_rudder'' = Some 0"
    by simp_all
  from lat_CN_rates_zero [OF this, of S] assms(4) s(1)
  have m: "CN (snd (calculate_aero_lat_forces_moments_coeffs S ?m))
      = Some (CN_delta_aile_data ! 2 ! j)"
    by (simp add: rad2deg_deg2rad)
  from assms have "0 < TAS ?p" "beta ?p = 0" "p ?p = 0" "r ?p = 0"
    "controls ?p ''delta_aileron'' = Some (deg2rad 5)"
    "controls ?p ''delta_rudder'' = Some 0"
    by simp_all
  from lat_CN_rates_zero [OF this, of S] assms(4) s(2)
  have p: "CN (snd (calculate_aero_lat_forces_moments_coeffs S ?p))
      = Some (CN_delta_aile_data ! 5 ! j)"
    by (simp add: rad2deg_deg2rad)
  from aileron_rows assms(2) have "CN_delta_aile_data ! 2 ! j \<noteq> - (CN_delta_aile_data ! 5 ! j)"
    "CN_delta_aile_data ! 2 ! j * CN_delta_aile_data ! 5 ! j < 0"
    by (simp_all add: grid_lengths)
  with m p show ?thesis by simp
qed

text \<open>
  The constructed aircraft at 50 m/s and 0 degrees angle of attack (index 3 of the
  grid), with the bilinear evaluator: \<open>CN = 0.0007675\<close> at -5 degrees of aileron and
  \<open>CN = -0.000384\<close> at +5 degrees.
\<close>

theorem aileron_yaw_at_five_degrees_witness:
  "(let self = (Cessna172 0.3048)\<lparr>TAS := 50\<rparr>
    in interpolates bilinear delta_aile_data alpha_data CN_delta_aile_data
     \<and> 3 < length alpha_data
     \<and> 0 < TAS self \<and> alpha self = deg2rad (alpha_data ! 3)
     \<and> beta self = 0 \<and> p self = 0 \<and> r self = 0
     \<and> controls self ''delta_rudder'' = Some 0
     \<and> CN (snd (calculate_aero_lat_forces_moments_coeffs bilinear
               (self\<lparr>controls := (controls self)(''delta_aileron'' \<mapsto> deg2rad (- 5))\<rparr>)))
           = Some 0.0007675
     \<and> CN (snd (calculate_aero_lat_forces_moments_coeffs bilinear
               (self\<lparr>controls := (controls self)(''delta_aileron'' \<mapsto> deg2rad 5)\<rparr>)))
           = Some (- 0.000384))"
proof -
  let ?self = "(Cessna172 0.3048)\<lparr>TAS := 50\<rparr>"
  have i: "interpolates bilinear delta_aile_data alpha_data CN_delta_aile_data"
    by (rule bilinear_interpolates) (simp_all add: grids_increasing table_lengths grid_lengths)
  have j: "3 < length alpha_data" by (simp add: grid_lengths)
  have h: "0 < TAS ?self" "alpha ?self = deg2rad (alpha_data ! 3)"
    "beta ?self = 0" "p ?self = 0" "r ?self = 0" "controls ?self ''delta_rudder'' = Some 0"
    by (simp_all add: Cessna172_def alpha_data_def deg2rad_def)
  have e: "CN_delta_aile_data ! 2 ! 3 = 0.0007675" "CN_delta_aile_data ! 5 ! 3 = - 0.000384"
    by (simp_all add: CN_delta_aile_data_def)
  from aileron_yaw_at_five_degrees [OF i j h] i j h show ?thesis
    unfolding Let_def e by blast
qed

text \<open>
  The claim as stated fails: at 0 degrees angle of attack no evaluator that interpolates
  the table gives \<open>CN = -a\<close> at -5 degrees of aileron and \<open>CN = a\<close> at +5 degrees.
\<close>

theorem aileron_antisymmetry_counterexample:
  "\<not> (\<exists>S a. interpolates S delta_aile_data alpha_data CN_delta_aile_data
        \<and> CN (snd (calculate_aero_lat_forces_moments_coeffs S
             ((Cessna172 0.3048)\<lparr>TAS := 50,
                controls := (controls (Cessna172 0.3048))(''delta_aileron'' \<mapsto> deg2rad (- 5))\<rparr>)))
           = Some (- a)
        \<and> CN (snd (calculate_aero_lat_forces_moments_coeffs S
             ((Cessna172 0.3048)\<lparr>TAS := 50,
                controls := (controls (Cessna172 0.3048))(''delta_aileron'' \<mapsto> deg2rad 5)\<rparr>)))
           = Some a)"
proof
  let ?m = "(Cessna172 0.3048)\<lparr>TAS := 50,
                controls := (controls (Cessna172 0.3048))(''delta_aileron'' \<mapsto> deg2rad (- 5))\<rparr>"
  let ?p = "(Cessna172 0.3048)\<lparr>TAS := 50,
                controls := (controls (Cessna172 0.3048))(''delta_aileron'' \<mapsto> deg2rad 5)\<rparr>"
  assume "\<exists>S a. interpolates S delta_aile_data alpha_data CN_delta_aile_data
        \<and> CN (snd (calculate_aero_lat_forces_moments_coeffs S ?m)) = Some (- a)
        \<and> CN (snd (calculate_aero_lat_forces_moments_coeffs S ?p)) = Some a"
  then obtain S a where i: "interpolates S delta_aile_data alpha_data CN_delta_aile_data"
    and m: "CN (snd (calculate_aero_lat_forces_moments_coeffs S ?m)) = Some (- a)"
    and p: "CN (snd (calculate_aero_lat_forces_moments_coeffs S ?p)) = Some a"
    by blast
  from i have
    "S delta_aile_data alpha_data CN_delta_aile_data (delta_aile_data ! 2) (alpha_data ! 3)
       = CN_delta_aile_data ! 2 ! 3"
    "S delta_aile_data alpha_data CN_delta_aile_data (delta_aile_data ! 5) (alpha_data ! 3)
       = CN_delta_aile_data ! 5 ! 3"
    by (simp_all add: interpolates_def grid_lengths)
  then have s: "S delta_aile_data alpha_data CN_delta_aile_data (- 5) 0 = 0.0007675"
    "S delta_aile_data alpha_data CN_delta_aile_data 5 0 = - 0.000384"
    by (simp_all add: delta_aile_data_def alpha_data_def CN_delta_aile_data_def)
  have "0 < TAS ?m" "beta ?m = 0" "p ?m = 0" "r ?m = 0"
    "controls ?m ''delta_aileron'' = Some (deg2rad (- 5))"
    "controls ?m ''delta_rudder'' = Some 0"
    by (simp_all add: Cessna172_def)
  from lat_CN_rates_zero [OF this, of S] s(1)
  have "CN (snd (calculate_aero_lat_forces_moments_coeffs S ?m)) = Some 0.0007675"
    by (simp add: rad2deg_deg2rad rad2deg_0 Cessna172_def)
  with m have a1: "- a = 0.0007675" by simp
  have "0 < TAS ?p" "beta ?p = 0" "p ?p = 0" "r ?p = 0"
    "controls ?p ''delta_aileron'' = Some (deg2rad 5)"
    "controls ?p ''delta_rudder'' = Some 0"
    by (simp_all add: Cessna172_def)
  from lat_CN_rates_zero [OF this, of S] s(2)
  have "CN (snd (calculate_aero_lat_forces_moments_coeffs S ?p)) = Some (- 0.000384)"
    by (simp add: rad2deg_deg2rad rad2deg_0 Cessna172_def)
  with p have a2: "a = - 0.000384" by simp
  from a1 a2 show False by simp
qed

subsection \<open>Queries outside the grid of a two-dimensional table\<close>

lemma clamp_idem: "hd xs \<le> last xs \<Longrightarrow> clamp xs (clamp xs u) = clamp xs u"
  by (simp add: clamp_def)

lemma np_interp_clamp:
  assumes "sorted_wrt (<) xp" and "xp \<noteq> []" and "length fp = length xp"
  shows "np_interp (clamp xp x) xp fp = np_interp x xp fp"
proof -
  from assms(2,3) have fp: "fp \<noteq> []" by auto
  have le: "hd xp \<le> last xp" by (rule hd_le_last [OF assms(1,2)])
  consider "x < hd xp" | "last xp < x" | "hd xp \<le> x" "x \<le> last xp" by linarith
  then show ?thesis
  proof cases
    case 1
    with le have "clamp xp x = xp ! 0" using assms(2) by (simp add: clamp_def hd_conv_nth)
    with np_interp_node [OF assms(1), of 0 fp] assms(2) fp 1 show ?thesis
      by (simp add: np_interp_below hd_conv_nth)
  next
    case 2
    with le have "clamp xp x = xp ! (length xp - 1)"
      using assms(2) by (simp add: clamp_def last_conv_nth)
    with np_interp_node [OF assms(1), of "length xp - 1" fp] assms 2 fp show ?thesis
      by (simp add: np_interp_above last_conv_nth)
  next
    case 3
    then show ?thesis by (simp add: clamp_inside)
  qed
qed

lemma grid_bounds:
  "hd alpha_data \<le> last alpha_data" "hd delta_elev_data \<le> last delta_elev_data"
  "hd delta_aile_data \<le> last delta_aile_data"
  "alpha_data \<noteq> []" "delta_elev_data \<noteq> []" "delta_aile_data \<noteq> []"
  by (simp_all add: alpha_data_def delta_elev_data_def delta_aile_data_def)

lemma clamp_in_grid:
  "hd xs \<le> last xs \<Longrightarrow> hd xs \<le> clamp xs u \<and> clamp xs u \<le> last xs"
  by (simp add: clamp_def)

lemma clamp_nearest:
  "hd xs \<le> last xs \<Longrightarrow> hd xs \<le> u' \<Longrightarrow> u' \<le> last xs \<Longrightarrow> \<bar>u - clamp xs u\<bar> \<le> \<bar>u - u'\<bar>"
  by (auto simp add: clamp_def max_def min_def)

lemma lon_CD_value:
  assumes "0 < TAS self" and "controls self ''delta_elevator'' = Some de"
  shows "CD (snd (calculate_aero_lon_forces_moments_coeffs S self))
      = np_interp (rad2deg (alpha self)) alpha_data CD_data
        + S delta_elev_data alpha_data CD_delta_elev_data (rad2deg de) (rad2deg (alpha self))"
  using assms by (simp add: calculate_aero_lon_forces_moments_coeffs_def Let_def)

lemma lat_CN_value:
  assumes "0 < TAS self" and "controls self ''delta_aileron'' = Some da"
    and "controls self ''delta_rudder'' = Some dr"
  shows "CN (snd (calculate_aero_lat_forces_moments_coeffs S self))
      = Some (np_interp (rad2deg (alpha self)) alpha_data CN_beta_data * beta self
              + S delta_aile_data alpha_data CN_delta_aile_data (rad2deg da) (rad2deg (alpha self))
              + np_interp (rad2deg (alpha self)) alpha_data CN_delta_rud_data * dr
              + (span self / (2 * TAS self))
                * (np_interp (rad2deg (alpha self)) alpha_data CN_p_data * p self
                   + np_interp (rad2deg (alpha self)) alpha_data CN_r_data * r self))"
  using assms by (simp add: calculate_aero_lat_forces_moments_coeffs_def Let_def)

lemma np_interp_clamp_alpha:
  assumes "length fp = 12"
  shows "np_interp (clamp alpha_data x) alpha_data fp = np_interp x alpha_data fp"
  by (rule np_interp_clamp) (simp_all add: grids_increasing grid_bounds grid_lengths assms)

text \<open>
  C3. With the spline evaluated as SciPy evaluates it, both two-dimensional lookups (the
  elevator drag increment and the aileron yawing moment increment) are taken at the query
  point with each coordinate held at the bounds of its grid, for every query point, those
  outside the grid included. So the increment is the value of the fitted surface at a
  point of the grid rectangle, the one nearest to the query in each coordinate, and the
  coefficient the routine assigns is the coefficient it assigns for the state whose
  deflection and angle of attack are the clamped ones; no extrapolation of the spline
  enters. The routines themselves pass the query as it is: the clamp is the
  evaluator's.
\<close>

theorem out_of_grid_lookup_is_clamped:
  assumes "0 < TAS self"
    and "controls self ''delta_elevator'' = Some de"
    and "controls self ''delta_aileron'' = Some da"
    and "controls self ''delta_rudder'' = Some dr"
  shows
   "(let u = rad2deg de; v = rad2deg (alpha self);
         cu = clamp delta_elev_data u; cv = clamp alpha_data v;
         CD' = CD (snd (calculate_aero_lon_forces_moments_coeffs (fitpack_bispev surface) self))
     in CD' = np_interp v alpha_data CD_data
              + surface delta_elev_data alpha_data CD_delta_elev_data cu cv
      \<and> CD' = np_interp v alpha_data CD_data
              + fitpack_bispev surface delta_elev_data alpha_data CD_delta_elev_data cu cv
      \<and> CD' = CD (snd (calculate_aero_lon_forces_moments_coeffs (fitpack_bispev surface)
                  (self\<lparr>alpha := deg2rad cv,
                        controls := (controls self)(''delta_elevator'' \<mapsto> deg2rad cu)\<rparr>)))
      \<and> hd delta_elev_data \<le> cu \<and> cu \<le> last delta_elev_data
      \<and> hd alpha_data \<le> cv \<and> cv \<le> last alpha_data
      \<and> (\<forall>u' v'. hd delta_elev_data \<le> u' \<and> u' \<le> last delta_elev_data
                 \<and> hd alpha_data \<le> v' \<and> v' \<le> last alpha_data
            \<longrightarrow> \<bar>u - cu\<bar> \<le> \<bar>u - u'\<bar> \<and> \<bar>v - cv\<bar> \<le> \<bar>v - v'\<bar>))
  \<and> (let w = rad2deg da; v = rad2deg (alpha self);
         cw = clamp delta_aile_data w; cv = clamp alpha_data v;
         rest = np_interp v alpha_data CN_beta_data * beta self
              + np_interp v alpha_data CN_delta_rud_data * dr
              + (span self / (2 * TAS self))
                * (np_interp v alpha_data CN_p_data * p self
                   + np_interp v alpha_data CN_r_data * r self);
         CN' = CN (snd (calculate_aero_lat_forces_moments_coeffs (fitpack_bispev surface) self))
     in CN' = Some (rest + surface delta_aile_data alpha_data CN_delta_aile_data cw cv)
      \<and> CN' = Some (rest
                 + fitpack_bispev surface delta_aile_data alpha_data CN_delta_aile_data cw cv)
      \<and> CN' = CN (snd (calculate_aero_lat_forces_moments_coeffs (fitpack_bispev surface)
                  (self\<lparr>alpha := deg2rad cv,
                        controls := (controls self)(''delta_aileron'' \<mapsto> deg2rad cw)\<rparr>)))
      \<and> hd delta_aile_data \<le> cw \<and> cw \<le> last delta_aile_data
      \<and> (\<forall>w'. hd delta_aile_data \<le> w' \<and> w' \<le> last delta_aile_data
            \<longrightarrow> \<bar>w - cw\<bar> \<le> \<bar>w - w'\<bar>))"
proof -
  let ?S = "fitpack_bispev surface"
  let ?u = "rad2deg de" and ?w = "rad2deg da" and ?v = "rad2deg (alpha self)"
  let ?cu = "clamp delta_elev_data ?u" and ?cw = "clamp delta_aile_data ?w"
    and ?cv = "clamp alpha_data ?v"
  let ?lon = "self\<lparr>alpha := deg2rad ?cv,
                    controls := (controls self)(''delta_elevator'' \<mapsto> deg2rad ?cu)\<rparr>"
  let ?lat = "self\<lparr>alpha := deg2rad ?cv,
                    controls := (controls self)(''delta_aileron'' \<mapsto> deg2rad ?cw)\<rparr>"
  have i: "clamp delta_elev_data ?cu = ?cu" "clamp delta_aile_data ?cw = ?cw"
    "clamp alpha_data ?cv = ?cv"
    by (simp_all add: clamp_idem grid_bounds)
  have cd1: "CD (snd (calculate_aero_lon_forces_moments_coeffs ?S self))
      = np_interp ?v alpha_data CD_data
        + surface delta_elev_data alpha_data CD_delta_elev_data ?cu ?cv"
    using lon_CD_value [OF assms(1,2), of ?S] by (simp add: fitpack_bispev_def)
  have cd2: "fitpack_bispev surface delta_elev_data alpha_data CD_delta_elev_data ?cu ?cv
      = surface delta_elev_data alpha_data CD_delta_elev_data ?cu ?cv"
    by (simp add: fitpack_bispev_def i)
  have "0 < TAS ?lon" "controls ?lon ''delta_elevator'' = Some (deg2rad ?cu)"
    using assms by simp_all
  from lon_CD_value [OF this, of ?S]
  have cd3: "CD (snd (calculate_aero_lon_forces_moments_coeffs ?S ?lon))
      = np_interp ?v alpha_data CD_data
        + surface delta_elev_data alpha_data CD_delta_elev_data ?cu ?cv"
    by (simp add: rad2deg_deg2rad fitpack_bispev_def i np_interp_clamp_alpha table_lengths)
  have cn1: "CN (snd (calculate_aero_lat_forces_moments_coeffs ?S self))
      = Some (np_interp ?v alpha_data CN_beta_data * beta self
              + np_interp ?v alpha_data CN_delta_rud_data * dr
              + (span self / (2 * TAS self))
                * (np_interp ?v alpha_data CN_p_data * p self
                   + np_interp ?v alpha_data CN_r_data * r self)
              + surface delta_aile_data alpha_data CN_delta_aile_data ?cw ?cv)"
    using lat_CN_value [OF assms(1,3,4), of ?S] by (simp add: fitpack_bispev_def)
  have cn2: "fitpack_bispev surface delta_aile_data alpha_data CN_delta_aile_data ?cw ?cv
      = surface delta_aile_data alpha_data CN_delta_aile_data ?cw ?cv"
    by (simp add: fitpack_bispev_def i)
  have "0 < TAS ?lat" "controls ?lat ''delta_aileron'' = Some (deg2rad ?cw)"
    "controls ?lat ''delta_rudder'' = Some dr"
    using assms by simp_all
  from lat_CN_value [OF this, of ?S]
  have cn3: "CN (snd (calculate_aero_lat_forces_moments_coeffs ?S ?lat))
      = Some (np_interp ?v alpha_data CN_beta_data * beta self
              + np_interp ?v alpha_data CN_delta_rud_data * dr
              + (span self / (2 * TAS self))
                * (np_interp ?v alpha_data CN_p_data * p self
                   + np_interp ?v alpha_data CN_r_data * r self)
              + surface delta_aile_data alpha_data CN_delta_aile_data ?cw ?cv)"
    by (simp add: rad2deg_deg2rad fitpack_bispev_def i np_interp_clamp_alpha table_lengths)
  have b: "hd delta_elev_data \<le> ?cu" "?cu \<le> last delta_elev_data"
    "hd alpha_data \<le> ?cv" "?cv \<le> last alpha_data"
    "hd delta_aile_data \<le> ?cw" "?cw \<le> last delta_aile_data"
    using clamp_in_grid [of delta_elev_data ?u] clamp_in_grid [of alpha_data ?v]
      clamp_in_grid [of delta_aile_data ?w]
    by (simp_all add: grid_bounds)
  have n: "\<bar>?u - ?cu\<bar> \<le> \<bar>?u - u'\<bar>"
    if "hd delta_elev_data \<le> u'" "u' \<le> last delta_elev_data" for u'
    using that by (intro clamp_nearest) (simp_all add: grid_bounds)
  have n': "\<bar>?v - ?cv\<bar> \<le> \<bar>?v - v'\<bar>"
    if "hd alpha_data \<le> v'" "v' \<le> last alpha_data" for v'
    using that by (intro clamp_nearest) (simp_all add: grid_bounds)
  have n'': "\<bar>?w - ?cw\<bar> \<le> \<bar>?w - w'\<bar>"
    if "hd delta_aile_data \<le> w'" "w' \<le> last delta_aile_data" for w'
    using that by (intro clamp_nearest) (simp_all add: grid_bounds)
  show ?thesis
    unfolding Let_def cd1 cd2 cd3 cn1 cn2 cn3
    using b n n' n'' by simp
qed

lemma sample_clamps:
  "clamp alpha_data (- 30) = alpha_data ! 0" "clamp delta_elev_data 0 = delta_elev_data ! 4"
  by (simp_all add: clamp_def alpha_data_def delta_elev_data_def)

lemma bilinear_at_corner:
  "bilinear delta_elev_data alpha_data CD_delta_elev_data (delta_elev_data ! 4) (alpha_data ! 0) = 0"
proof -
  have "interpolates bilinear delta_elev_data alpha_data CD_delta_elev_data"
    by (rule bilinear_interpolates) (simp_all add: grids_increasing table_lengths grid_lengths)
  then have "bilinear delta_elev_data alpha_data CD_delta_elev_data
      (delta_elev_data ! 4) (alpha_data ! 0) = CD_delta_elev_data ! 4 ! 0"
    by (simp add: interpolates_def grid_lengths)
  then show ?thesis by (simp add: CD_delta_elev_data_def)
qed

text \<open>
  The constructed aircraft at 50 m/s and -30 degrees angle of attack, below the grid,
  with the bilinear surface: the query \<open>(0, -30)\<close> is held at \<open>(0, -7.5)\<close>, where
  the table has 0, and \<open>CD\<close> is \<open>0.044 + 0\<close>. The point \<open>(0, 0)\<close> of the grid is
  not nearer to the query than \<open>(0, -7.5)\<close>.
\<close>

theorem out_of_grid_lookup_is_clamped_witness:
  "(let below = (Cessna172 0.3048)\<lparr>TAS := 50, alpha := deg2rad (- 30)\<rparr>
    in 0 < TAS below
     \<and> controls below ''delta_elevator'' = Some 0
     \<and> controls below ''delta_aileron'' = Some 0
     \<and> controls below ''delta_rudder'' = Some 0
     \<and> rad2deg (alpha below) < hd alpha_data
     \<and> clamp alpha_data (rad2deg (alpha below)) = hd alpha_data
     \<and> CD (snd (calculate_aero_lon_forces_moments_coeffs (fitpack_bispev bilinear) below)) = 0.044
     \<and> hd delta_elev_data \<le> 0 \<and> 0 \<le> last delta_elev_data
     \<and> hd alpha_data \<le> 0 \<and> 0 \<le> last alpha_data
     \<and> \<bar>rad2deg (alpha below) - clamp alpha_data (rad2deg (alpha below))\<bar>
         \<le> \<bar>rad2deg (alpha below) - 0\<bar>)"
proof -
  let ?below = "(Cessna172 0.3048)\<lparr>TAS := 50, alpha := deg2rad (- 30)\<rparr>"
  have k: "0 < TAS ?below" "controls ?below ''delta_elevator'' = Some 0"
    "controls ?below ''delta_aileron'' = Some 0" "controls ?below ''delta_rudder'' = Some 0"
    by (simp_all add: Cessna172_def)
  have a: "rad2deg (alpha ?below) = - 30"
    by (simp add: rad2deg_deg2rad)
  have g: "hd delta_elev_data \<le> 0" "0 \<le> last delta_elev_data"
    "hd alpha_data \<le> 0" "0 \<le> last alpha_data" "- 30 < hd alpha_data"
    "clamp alpha_data (- 30) = hd alpha_data"
    by (simp_all add: delta_elev_data_def alpha_data_def clamp_def)
  have n: "np_interp (- 30) alpha_data CD_data = 0.044"
    by (simp add: np_interp_def alpha_data_def CD_data_def)
  note t = out_of_grid_lookup_is_clamped [OF k, of bilinear, unfolded Let_def a rad2deg_0]
  from t have "CD (snd (calculate_aero_lon_forces_moments_coeffs (fitpack_bispev bilinear) ?below))
      = np_interp (- 30) alpha_data CD_data
        + bilinear delta_elev_data alpha_data CD_delta_elev_data
            (clamp delta_elev_data 0) (clamp alpha_data (- 30))"
    by blast
  then have c: "CD (snd (calculate_aero_lon_forces_moments_coeffs (fitpack_bispev bilinear) ?below))
      = 0.044"
    by (simp only: sample_clamps bilinear_at_corner n add_0_right)
  from t g have "\<bar>- 30 - clamp alpha_data (- 30)\<bar> \<le> \<bar>- 30 - (0::real)\<bar>"
    by blast
  with k g c show ?thesis
    unfolding Let_def a by blast
qed

end
